theory Spec2Isabelle
  imports Main
begin

text \<open>
  The registration dialogue of the logistics bot: the validator of step inputs
  (\<open>keyboardManager\<close>), the deriver of the dialogue state and the middleware that reconciles
  the session with it (\<open>userStateMiddleware\<close>, the version with steps), and the handlers of
  the states (\<open>basicRegistration\<close>), over the user and order schemas. The handlers of the
  first order and of the first offer, \<open>handleFirstOrder\<close> and \<open>handleFirstOffer\<close>, are
  functions of the first version of the middleware module; the module of the version with
  steps calls them and does not define them.
\<close>

section \<open>JavaScript strings and numbers\<close>

text \<open>
  A message text is a \<^typ>\<open>string\<close>; each \<^typ>\<open>char\<close> stands for one code unit below 256
  (the Latin-1 range), so \<open>length\<close> is the JavaScript \<open>length\<close> of such a text. A value
  that may be \<open>undefined\<close> or \<open>null\<close> is an \<open>option\<close>.
\<close>

definition is_space :: "char \<Rightarrow> bool" where
  "is_space c = ((of_char c :: nat) \<in> {9, 10, 11, 12, 13, 32, 160})"

definition trim :: "string \<Rightarrow> string" where
  "trim s = rev (dropWhile is_space (rev (dropWhile is_space s)))"

definition is_digit :: "char \<Rightarrow> bool" where
  "is_digit c = (48 \<le> (of_char c :: nat) \<and> (of_char c :: nat) \<le> 57)"

definition is_hex_digit :: "char \<Rightarrow> bool" where
  "is_hex_digit c =
     (is_digit c \<or> (97 \<le> (of_char c :: nat) \<and> (of_char c :: nat) \<le> 102)
                \<or> (65 \<le> (of_char c :: nat) \<and> (of_char c :: nat) \<le> 70))"

definition digit_value :: "char \<Rightarrow> int" where
  "digit_value c =
     (let n = (of_char c :: nat) in
      if n \<le> 57 then int n - 48 else if 97 \<le> n then int n - 87 else int n - 55)"

definition digits_value :: "int \<Rightarrow> string \<Rightarrow> int" where
  "digits_value radix z = foldl (\<lambda>acc c. acc * radix + digit_value c) 0 z"

text \<open>
  The numbers that \<open>parseInt\<close> returns: \<open>NaN\<close>, an integer that a double represents, or an
  infinity. The two zeros are one value here; no comparison of the code tells them apart.
\<close>

datatype number = NaN | Num int | PosInf | NegInf

text \<open>
  The Number value of a nonnegative integer: it keeps 53 significant bits, rounds to the
  nearest, a tie to the even neighbour. \<open>exponent53 n\<close> is the number of bits that are
  dropped. From \<open>2^1024 - 2^970\<close> on, half way between the largest double and \<open>2^1024\<close>, the
  value is infinite. (For a decimal text of more than 20 digits ECMAScript lets \<open>parseInt\<close>
  read the digits after the 20th as zeros; the value here is the one rounded from all the
  digits, as Node computes it.)
\<close>

function exponent53 :: "int \<Rightarrow> nat" where
  "exponent53 n = (if n < 2 ^ 53 then 0 else Suc (exponent53 (n div 2)))"
  by pat_completeness auto
termination
  by (relation "measure nat") auto

declare exponent53.simps [simp del]

definition round53 :: "int \<Rightarrow> int" where
  "round53 n =
     (let e = exponent53 n; q = n div 2 ^ e; r = n mod 2 ^ e
      in if 2 * r > 2 ^ e \<or> (2 * r = 2 ^ e \<and> odd q) then (q + 1) * 2 ^ e else q * 2 ^ e)"

definition to_number :: "int \<Rightarrow> number" where
  "to_number n =
     (if 0 \<le> n then (if 2 ^ 1024 - 2 ^ 970 \<le> n then PosInf else Num (round53 n))
      else (if 2 ^ 1024 - 2 ^ 970 \<le> - n then NegInf else Num (- round53 (- n))))"

text \<open>\<open>parseInt(s)\<close> with no radix.\<close>

definition strip_sign :: "string \<Rightarrow> int \<times> string" where
  "strip_sign s =
     (case s of
        [] \<Rightarrow> (1, [])
      | c # r \<Rightarrow> if c = CHR ''-'' then (- 1, r) else if c = CHR ''+'' then (1, r) else (1, s))"

definition strip_prefix :: "string \<Rightarrow> int \<times> string" where
  "strip_prefix s =
     (case s of
        a # b # r \<Rightarrow>
          if a = CHR ''0'' \<and> (b = CHR ''x'' \<or> b = CHR ''X'') then (16, r) else (10, s)
      | _ \<Rightarrow> (10, s))"

definition parseInt :: "string \<Rightarrow> number" where
  "parseInt s =
     (let (sign, s2) = strip_sign (dropWhile is_space s);
          (radix, s3) = strip_prefix s2;
          z = takeWhile (if radix = 16 then is_hex_digit else is_digit) s3
      in if z = [] then NaN else to_number (sign * digits_value radix z))"

text \<open>\<open>parseInt(messageText)\<close> where the text may be \<open>undefined\<close>: that is the string
  \<open>"undefined"\<close>, which does not parse.\<close>

definition parseInt_opt :: "string option \<Rightarrow> number" where
  "parseInt_opt t = (case t of None \<Rightarrow> NaN | Some s \<Rightarrow> parseInt s)"

definition truthy :: "string option \<Rightarrow> bool" where
  "truthy x = (case x of None \<Rightarrow> False | Some s \<Rightarrow> s \<noteq> [])"

definition truthy_num :: "int option \<Rightarrow> bool" where
  "truthy_num x = (case x of None \<Rightarrow> False | Some n \<Rightarrow> n \<noteq> 0)"

section \<open>The inbound update\<close>

text \<open>The translated button labels \<open>global.i18n.t(ctx, key)\<close> of the sender's locale.\<close>

record labels =
  role_client :: string
  role_driver :: string
  cat_light :: string
  cat_medium :: string
  cat_heavy :: string
  cat_special :: string
  skip :: string
  contact_button :: string

record contact =
  phone_number :: string
  user_id :: "nat option"

record ctx =
  from_id :: nat
  from_first_name :: "string option"
  from_last_name :: "string option"
  chat_type :: string
  callbackQuery :: bool
  msg_text :: "string option"
  msg_contact :: "contact option"
  i18n :: labels
  currentYear :: int

section \<open>Step validator (keyboardManager)\<close>

text \<open>
  The members that every object inherits from \<open>Object.prototype\<close>: eleven functions and the
  accessor \<open>__proto__\<close>. A lookup \<open>inputTypes[state]\<close> or \<open>inputTypes[state][step]\<close> with such a
  name finds the inherited member where the table has no entry of its own.
\<close>

definition inherited_function :: "string \<Rightarrow> bool" where
  "inherited_function k =
     (k \<in> set [''constructor'', ''__defineGetter__'', ''__defineSetter__'', ''hasOwnProperty'',
              ''__lookupGetter__'', ''__lookupSetter__'', ''isPrototypeOf'',
              ''propertyIsEnumerable'', ''toString'', ''valueOf'', ''toLocaleString''])"

text \<open>What \<open>getExpectedInputType\<close> returns: a string of the table or \<open>'unknown'\<close>, or the
  inherited member of that name (a function, or \<open>Object.prototype\<close> for \<open>__proto__\<close>).\<close>

datatype input_type = Kind string | Inherited string

text \<open>\<open>table[step]\<close> where the table of a state has no entry of its own for the step: the
  inherited member when it is truthy.\<close>

definition no_own_entry :: "string option \<Rightarrow> input_type option" where
  "no_own_entry step =
     (case step of
        None \<Rightarrow> None
      | Some k \<Rightarrow> if inherited_function k \<or> k = ''__proto__'' then Some (Inherited k) else None)"

text \<open>\<open>Object.prototype[step]\<close>, the case of the state \<open>__proto__\<close>, when it is truthy; its own
  \<open>__proto__\<close> is \<open>null\<close>.\<close>

definition of_prototype :: "string option \<Rightarrow> input_type option" where
  "of_prototype step =
     (case step of
        None \<Rightarrow> None
      | Some k \<Rightarrow> if inherited_function k then Some (Inherited k) else None)"

definition getExpectedInputType :: "string \<Rightarrow> string option \<Rightarrow> input_type" where
  "getExpectedInputType state step =
     (if state = ''role_selection'' then Kind ''role_button''
      else if state = ''basic_info'' then
        (if step = Some ''first_name'' then Kind ''text''
         else if step = Some ''last_name'' then Kind ''text''
         else if step = Some ''birth_year'' then Kind ''number''
         else if step = Some ''phone'' then Kind ''contact''
         else (case no_own_entry step of Some m \<Rightarrow> m | None \<Rightarrow> Kind ''unknown''))
      else if state = ''first_order'' then
        (if step = Some ''from_location'' then Kind ''text''
         else if step = Some ''to_location'' then Kind ''text_or_skip''
         else if step = Some ''description'' then Kind ''text_or_skip''
         else if step = Some ''price'' then Kind ''number_or_skip''
         else (case no_own_entry step of Some m \<Rightarrow> m | None \<Rightarrow> Kind ''unknown''))
      else if state = ''first_offer'' then
        (if step = Some ''vehicle_model'' then Kind ''text''
         else if step = Some ''vehicle_category'' then Kind ''category_button''
         else if step = Some ''current_location'' then Kind ''text''
         else (case no_own_entry step of Some m \<Rightarrow> m | None \<Rightarrow> Kind ''unknown''))
      else if state = ''__proto__'' then
        (case of_prototype step of Some m \<Rightarrow> m | None \<Rightarrow> Kind ''unknown'')
      else Kind ''unknown'')"

text \<open>The \<open>switch\<close> compares the expected type with the strings of its cases; an inherited
  member equals none of them and takes the default branch.\<close>

definition validateInput ::
  "'a ctx_scheme \<Rightarrow> string \<Rightarrow> string option \<Rightarrow> string option \<Rightarrow> bool" where
  "validateInput c state step messageText =
     (case getExpectedInputType state step of
        Inherited m \<Rightarrow> True
      | Kind expectedType \<Rightarrow>
          if expectedType = ''text'' then
            (case messageText of None \<Rightarrow> False | Some t \<Rightarrow> t \<noteq> [] \<and> 2 \<le> length (trim t))
          else if expectedType = ''number'' then
            parseInt_opt messageText \<noteq> NaN
          else if expectedType = ''contact'' then
            (case msg_contact c of None \<Rightarrow> False | Some k \<Rightarrow> user_id k = Some (from_id c))
          else if expectedType = ''role_button'' then
            (messageText = Some (role_client (i18n c))
             \<or> messageText = Some (role_driver (i18n c)))
          else if expectedType = ''category_button'' then
            (case messageText of
               None \<Rightarrow> False
             | Some t \<Rightarrow> t \<in> set [cat_light (i18n c), cat_medium (i18n c),
                                   cat_heavy (i18n c), cat_special (i18n c)])
          else if expectedType = ''text_or_skip'' then
            (case messageText of
               None \<Rightarrow> False
             | Some t \<Rightarrow> t \<noteq> [] \<and> (2 \<le> length (trim t) \<or> t = skip (i18n c)))
          else if expectedType = ''number_or_skip'' then
            (case messageText of
               None \<Rightarrow> False
             | Some t \<Rightarrow> t \<noteq> [] \<and> (parseInt t \<noteq> NaN \<or> t = skip (i18n c)))
          else True)"

section \<open>User record, session state, derived state\<close>

record profile =
  firstName :: "string option"
  lastName :: "string option"
  birthYear :: "int option"
  phoneNumber :: "string option"
  role :: "string option"

record driverInfo =
  vehicleModel :: "string option"
  vehicleCategory :: "string option"
  currentLocation :: "string option"

text \<open>A user document; \<open>oid\<close> is its \<open>_id\<close>. Its unique \<open>telegramId\<close> is the key under which
  the record store holds it.\<close>

record user =
  oid :: nat
  profile :: profile
  driverInfo :: driverInfo
  registrationCompleted :: bool

definition isDriver :: "user \<Rightarrow> bool" where
  "isDriver u = (role (profile u) = Some ''driver'')"

text \<open>
  The \<open>data\<close> object of a session: the keys the handlers read and write, each absent
  (\<open>None\<close>) or present. An absent \<open>data\<close> is \<open>no_data\<close>: the code reads it as
  \<open>data || {}\<close> or spreads it.
\<close>

record state_data =
  basicInfoStep :: "string option"
  d_role :: "string option"
  d_firstName :: "string option"
  d_lastName :: "string option"
  d_birthYear :: "int option"
  orderStep :: "string option"
  d_from :: "string option"
  d_to :: "string option"
  d_description :: "string option"
  d_price :: "number option"
  offerStep :: "string option"
  d_vehicleModel :: "string option"
  d_vehicleCategory :: "string option"

definition no_data :: state_data where
  "no_data = \<lparr> basicInfoStep = None, d_role = None, d_firstName = None, d_lastName = None,
               d_birthYear = None, orderStep = None, d_from = None, d_to = None,
               d_description = None, d_price = None, offerStep = None,
               d_vehicleModel = None, d_vehicleCategory = None \<rparr>"

record session =
  current :: string
  currentStep :: "string option"
  sdata :: state_data

record derived =
  state :: string
  step :: "string option"
  data :: state_data

section \<open>State deriver (userStateMiddleware, step-aware version)\<close>

definition deriveBasicInfoStep :: "user \<Rightarrow> state_data \<Rightarrow> string" where
  "deriveBasicInfoStep u stateData =
     (let p = profile u;
          fromUser =
            (if \<not> truthy (firstName p) then ''first_name''
             else if \<not> truthy (lastName p) then ''last_name''
             else if \<not> truthy_num (birthYear p) then ''birth_year''
             else if \<not> truthy (phoneNumber p) then ''phone''
             else ''first_name'')
      in case basicInfoStep stateData of
           None \<Rightarrow> fromUser
         | Some h \<Rightarrow>
             if h \<noteq> [] \<and> h \<in> set [''first_name'', ''last_name'', ''birth_year'', ''phone''] then
               (if h = ''first_name'' \<and> \<not> truthy (firstName p) then ''first_name''
                else if h = ''last_name'' \<and> truthy (firstName p) \<and> \<not> truthy (lastName p)
                  then ''last_name''
                else if h = ''birth_year'' \<and> truthy (firstName p) \<and> truthy (lastName p)
                          \<and> \<not> truthy_num (birthYear p)
                  then ''birth_year''
                else if h = ''phone'' \<and> truthy (firstName p) \<and> truthy (lastName p)
                          \<and> truthy_num (birthYear p) \<and> \<not> truthy (phoneNumber p)
                  then ''phone''
                else fromUser)
             else fromUser)"

definition deriveOrderStep :: "state_data \<Rightarrow> string" where
  "deriveOrderStep stateData =
     (case orderStep stateData of
        None \<Rightarrow> ''from_location''
      | Some h \<Rightarrow>
          if h \<noteq> [] \<and> h \<in> set [''from_location'', ''to_location'', ''description'', ''price'']
          then h else ''from_location'')"

definition deriveOfferStep :: "user \<Rightarrow> state_data \<Rightarrow> string" where
  "deriveOfferStep u stateData =
     (case offerStep stateData of
        None \<Rightarrow> ''vehicle_model''
      | Some h \<Rightarrow>
          if h \<noteq> [] \<and> h \<in> set [''vehicle_model'', ''vehicle_category'', ''current_location'']
          then h else ''vehicle_model'')"

text \<open>
  The second argument is the stored session, \<open>None\<close> when the session store has no entry
  (the default parameter \<open>{}\<close> then applies, and its \<open>data\<close> is absent).
\<close>

definition deriveUserStateWithStep :: "user option \<Rightarrow> session option \<Rightarrow> derived" where
  "deriveUserStateWithStep user existingStateData =
     (let existingData = (case existingStateData of None \<Rightarrow> no_data | Some s \<Rightarrow> sdata s) in
      case user of
        None \<Rightarrow> \<lparr> state = ''role_selection'', step = None, data = existingData \<rparr>
      | Some u \<Rightarrow>
          if \<not> truthy (role (profile u)) then
            \<lparr> state = ''role_selection'', step = None, data = existingData \<rparr>
          else if \<not> truthy (firstName (profile u)) \<or> \<not> truthy (phoneNumber (profile u)) then
            (let st = deriveBasicInfoStep u existingData in
             \<lparr> state = ''basic_info'', step = Some st,
               data = existingData \<lparr> basicInfoStep := Some st, d_role := role (profile u) \<rparr> \<rparr>)
          else if \<not> registrationCompleted u then
            (if isDriver u then
               (let st = deriveOfferStep u existingData in
                \<lparr> state = ''first_offer'', step = Some st,
                  data = existingData \<lparr> offerStep := Some st \<rparr> \<rparr>)
             else
               (let st = deriveOrderStep existingData in
                \<lparr> state = ''first_order'', step = Some st,
                  data = existingData \<lparr> orderStep := Some st \<rparr> \<rparr>))
          else \<lparr> state = ''completed'', step = None, data = no_data \<rparr>)"

definition validateCurrentState :: "user \<Rightarrow> session \<Rightarrow> bool" where
  "validateCurrentState u userState =
     (let d = deriveUserStateWithStep (Some u) (Some userState) in
      if state d \<noteq> current userState then False else True)"

section \<open>Stores and outbound messages\<close>

datatype markup = NoMarkup | Keyboard "string list" | RequestContact string | RemoveKeyboard

text \<open>A reply is named by the key of its translated text; \<open>Later ms m\<close> is sent from a
  timer callback.\<close>

datatype out = Reply string markup | MainMenu | Later nat out

record order =
  clientId :: nat
  cargo_from :: "string option"
  cargo_to :: string
  cargo_description :: string
  cargo_price :: number
  status :: string

record world =
  users :: "nat \<rightharpoonup> user"
  userStates :: "nat \<rightharpoonup> session"
  registrationData :: "nat set"
  orders :: "order list"
  sent :: "out list"
  nextOid :: nat
  schemaYear :: int

text \<open>The errors that are thrown: a save that fails the validation of its schema, and a
  call of a name that the module does not define.\<close>

datatype error = ValidationError | ReferenceError

definition reply :: "out \<Rightarrow> world \<Rightarrow> world" where
  "reply m w = w \<lparr> sent := sent w @ [m] \<rparr>"

subsection \<open>Record store: the mongoose schemas\<close>

text \<open>String paths are declared \<open>trim: true\<close>: a value is trimmed when it is assigned. A
  save validates the document against its schema and throws when it fails: the required
  paths, the bounds of the numbers, the enumerations and the maximal length. \<open>schemaYear\<close>
  is the year in which the user schema was loaded, the upper bound of \<open>birthYear\<close>.\<close>

definition set_str :: "string option \<Rightarrow> string option" where
  "set_str x = map_option trim x"

definition in_enum :: "string list \<Rightarrow> string option \<Rightarrow> bool" where
  "in_enum vs x = (case x of None \<Rightarrow> True | Some v \<Rightarrow> v \<in> set vs)"

definition user_valid :: "int \<Rightarrow> user \<Rightarrow> bool" where
  "user_valid yr u =
     (truthy (firstName (profile u))
      \<and> (case birthYear (profile u) of None \<Rightarrow> True | Some y \<Rightarrow> 1900 \<le> y \<and> y \<le> yr)
      \<and> in_enum [''driver'', ''client''] (role (profile u))
      \<and> in_enum [''light'', ''medium'', ''heavy'', ''special''] (vehicleCategory (driverInfo u)))"

definition user_save :: "nat \<Rightarrow> user \<Rightarrow> world \<Rightarrow> error + world" where
  "user_save uid u w =
     (if user_valid (schemaYear w) u then Inr (w \<lparr> users := (users w)(uid \<mapsto> u) \<rparr>)
      else Inl ValidationError)"

definition findByTelegramId :: "nat \<Rightarrow> world \<Rightarrow> user option" where
  "findByTelegramId uid w = users w uid"

text \<open>\<open>min: 0\<close> on a number; \<open>NaN\<close> is not cast to a number at all.\<close>

definition at_least_zero :: "number \<Rightarrow> bool" where
  "at_least_zero x = (case x of NaN \<Rightarrow> False | Num n \<Rightarrow> 0 \<le> n | PosInf \<Rightarrow> True | NegInf \<Rightarrow> False)"

definition order_valid :: "order \<Rightarrow> bool" where
  "order_valid od =
     (truthy (cargo_from od) \<and> length (cargo_description od) \<le> 1000
      \<and> at_least_zero (cargo_price od))"

definition order_save :: "order \<Rightarrow> world \<Rightarrow> error + world" where
  "order_save od w =
     (if order_valid od then Inr (w \<lparr> orders := orders w @ [od] \<rparr>) else Inl ValidationError)"

subsection \<open>Session store (redisService)\<close>

datatype field_update = Current string | Step "string option" | Data state_data

text \<open>Modelled from the spec: \<open>redisService.getUserState\<close> is not part of the sources; it is
  \<open>get(identity)\<close> of the session store interface, the entry of the user or nothing
  (\<open>undefined\<close>).\<close>

definition getUserState :: "nat \<Rightarrow> world \<Rightarrow> session option" where
  "getUserState uid w = userStates w uid"

text \<open>Modelled from the spec: \<open>redisService.setUserState\<close> is not part of the sources; it is
  \<open>set(identity, SessionState)\<close> of the session store interface.\<close>

definition setUserState :: "nat \<Rightarrow> session \<Rightarrow> world \<Rightarrow> world" where
  "setUserState uid s w = w \<lparr> userStates := (userStates w)(uid \<mapsto> s) \<rparr>"

text \<open>Modelled from the spec: \<open>redisService.updateUserStateField\<close> is not part of the
  sources; it is \<open>updateField(identity, field, value)\<close> of the session store interface, which
  writes one field of the user's entry. On a missing entry it changes nothing here.\<close>

definition updateUserStateField :: "nat \<Rightarrow> field_update \<Rightarrow> world \<Rightarrow> world" where
  "updateUserStateField uid f w =
     (case userStates w uid of
        None \<Rightarrow> w
      | Some s \<Rightarrow>
          setUserState uid
            (case f of
               Current v \<Rightarrow> s \<lparr> current := v \<rparr>
             | Step v \<Rightarrow> s \<lparr> currentStep := v \<rparr>
             | Data v \<Rightarrow> s \<lparr> sdata := v \<rparr>) w)"

text \<open>Modelled from the spec: \<open>redisService.deleteUserState\<close> is not part of the sources; it
  is \<open>delete(identity)\<close> of the session store interface.\<close>

definition deleteUserState :: "nat \<Rightarrow> world \<Rightarrow> world" where
  "deleteUserState uid w = w \<lparr> userStates := (userStates w)(uid := None) \<rparr>"

text \<open>Modelled from the spec: \<open>redisService.deleteRegistrationData\<close> is not part of the
  sources, and the session store interface has no such operation. \<open>resetUserState\<close> calls
  it next to \<open>deleteUserState\<close>, so it removes a separate entry of the user and leaves the
  session entry alone.\<close>

definition deleteRegistrationData :: "nat \<Rightarrow> world \<Rightarrow> world" where
  "deleteRegistrationData uid w = w \<lparr> registrationData := registrationData w - {uid} \<rparr>"

definition resetUserState :: "nat \<Rightarrow> world \<Rightarrow> world" where
  "resetUserState uid w = deleteRegistrationData uid (deleteUserState uid w)"

section \<open>Prompts (keyboardManager.showKeyboardForState)\<close>

definition showBasicInfoKeyboard :: "'a ctx_scheme \<Rightarrow> string option \<Rightarrow> out" where
  "showBasicInfoKeyboard c stp =
     (if stp = Some ''first_name'' then Reply ''registration.enter_first_name'' NoMarkup
      else if stp = Some ''last_name'' then Reply ''registration.enter_last_name'' NoMarkup
      else if stp = Some ''birth_year'' then Reply ''registration.enter_birth_year'' NoMarkup
      else if stp = Some ''phone'' then
        Reply ''registration.share_contact'' (RequestContact (contact_button (i18n c)))
      else Reply ''registration.enter_first_name'' NoMarkup)"

definition showFirstOrderKeyboard :: "'a ctx_scheme \<Rightarrow> string option \<Rightarrow> out" where
  "showFirstOrderKeyboard c stp =
     (if stp = Some ''from_location'' then Reply ''orders.enter_from'' NoMarkup
      else if stp = Some ''to_location'' then Reply ''orders.enter_to'' (Keyboard [skip (i18n c)])
      else if stp = Some ''description'' then
        Reply ''orders.enter_description'' (Keyboard [skip (i18n c)])
      else if stp = Some ''price'' then Reply ''orders.enter_price'' (Keyboard [skip (i18n c)])
      else Reply ''orders.enter_from'' NoMarkup)"

definition showFirstOfferKeyboard :: "'a ctx_scheme \<Rightarrow> string option \<Rightarrow> out" where
  "showFirstOfferKeyboard c stp =
     (if stp = Some ''vehicle_model'' then Reply ''registration.enter_vehicle_model'' NoMarkup
      else if stp = Some ''vehicle_category'' then
        Reply ''registration.choose_vehicle_category''
          (Keyboard [cat_light (i18n c), cat_medium (i18n c), cat_heavy (i18n c),
                     cat_special (i18n c)])
      else if stp = Some ''current_location'' then
        Reply ''registration.enter_current_location'' RemoveKeyboard
      else Reply ''registration.enter_vehicle_model'' NoMarkup)"

definition showKeyboardForState :: "'a ctx_scheme \<Rightarrow> string \<Rightarrow> string option \<Rightarrow> out list" where
  "showKeyboardForState c st stp =
     (if st = ''role_selection'' then
        [Reply ''start.choose_role'' (Keyboard [role_client (i18n c), role_driver (i18n c)])]
      else if st = ''basic_info'' then [showBasicInfoKeyboard c stp]
      else if st = ''first_order'' then [showFirstOrderKeyboard c stp]
      else if st = ''first_offer'' then [showFirstOfferKeyboard c stp]
      else [])"

definition show_prompt :: "'a ctx_scheme \<Rightarrow> string \<Rightarrow> string option \<Rightarrow> world \<Rightarrow> world" where
  "show_prompt c st stp w = w \<lparr> sent := sent w @ showKeyboardForState c st stp \<rparr>"

section \<open>Transition engine\<close>

text \<open>
  A handler gets the inbound update \<open>c\<close>, the user record \<open>ctx.user\<close> and the session
  \<open>ctx.userState\<close> that the middleware loaded, and the message text. It returns whether it
  handled the message, with the new stores, or the error that a rejected save throws.
\<close>

definition completeRegistration :: "nat \<Rightarrow> world \<Rightarrow> bool \<times> world" where
  "completeRegistration userId w =
     (case (case findByTelegramId userId w of
              None \<Rightarrow> Inr w
            | Some u \<Rightarrow> user_save userId (u \<lparr> registrationCompleted := True \<rparr>) w) of
        Inl e \<Rightarrow> (False, w)
      | Inr w1 \<Rightarrow>
          (True,
           deleteRegistrationData userId
             (updateUserStateField userId (Step None)
               (updateUserStateField userId (Current ''completed'') w1))))"

definition handleRoleSelection ::
  "'a ctx_scheme \<Rightarrow> user \<Rightarrow> string option \<Rightarrow> world \<Rightarrow> error + bool \<times> world" where
  "handleRoleSelection c u messageText w =
     (if \<not> validateInput c ''role_selection'' None messageText then
        Inr (True, show_prompt c ''role_selection'' None w)
      else
        (let selectedRole =
               (if messageText = Some (role_client (i18n c)) then Some ''client''
                else if messageText = Some (role_driver (i18n c)) then Some ''driver''
                else None)
         in case selectedRole of
              None \<Rightarrow> Inr (False, w)
            | Some r \<Rightarrow>
                (case user_save (from_id c) (u \<lparr> profile := (profile u) \<lparr> role := Some r \<rparr> \<rparr>) w of
                   Inl e \<Rightarrow> Inl e
                 | Inr w1 \<Rightarrow>
                     (let w2 = updateUserStateField (from_id c) (Current ''basic_info'') w1;
                          w3 = updateUserStateField (from_id c) (Step (Some ''first_name'')) w2;
                          w4 = updateUserStateField (from_id c)
                                 (Data (no_data \<lparr> d_role := Some r,
                                                  basicInfoStep := Some ''first_name'' \<rparr>)) w3;
                          w5 = reply (Reply ''registration.role_selected'' RemoveKeyboard) w4;
                          w6 = w5 \<lparr> sent := sent w5 @
                                 map (Later 500)
                                   (showKeyboardForState c ''basic_info'' (Some ''first_name'')) \<rparr>
                      in Inr (True, w6)))))"

text \<open>\<open>x || d\<close> on a string that may be absent.\<close>

definition or_else :: "string option \<Rightarrow> string \<Rightarrow> string" where
  "or_else x d = (case x of None \<Rightarrow> d | Some v \<Rightarrow> if v = [] then d else v)"

text \<open>The test of the birth year, \<open>isNaN(year) || year < 1900 || year > currentYear - 16\<close>:
  the year when the test lets it pass. An infinity fails one of the comparisons.\<close>

definition accepted_year :: "'a ctx_scheme \<Rightarrow> number \<Rightarrow> int option" where
  "accepted_year c year =
     (case year of
        NaN \<Rightarrow> None
      | Num y \<Rightarrow> if y < 1900 \<or> y > currentYear c - 16 then None else Some y
      | PosInf \<Rightarrow> None
      | NegInf \<Rightarrow> None)"

definition handleBasicInfo ::
  "'a ctx_scheme \<Rightarrow> user \<Rightarrow> session \<Rightarrow> string option \<Rightarrow> string option \<Rightarrow> world
     \<Rightarrow> error + bool \<times> world" where
  "handleBasicInfo c u userState messageText stepArg w =
     (let userId = from_id c;
          regData = sdata userState;
          stp = or_else stepArg (or_else (basicInfoStep regData) ''first_name'')
      in
      if stp = ''first_name'' then
        (if \<not> validateInput c ''basic_info'' (Some ''first_name'') messageText then
           Inr (True, show_prompt c ''basic_info'' (Some ''first_name'') w)
         else
           (let regData1 = regData \<lparr> d_firstName := map_option trim messageText,
                                      basicInfoStep := Some ''last_name'' \<rparr>;
                w1 = updateUserStateField userId (Step (Some ''last_name'')) w;
                w2 = updateUserStateField userId (Data regData1) w1
            in Inr (True, show_prompt c ''basic_info'' (Some ''last_name'') w2)))
      else if stp = ''last_name'' then
        (if \<not> validateInput c ''basic_info'' (Some ''last_name'') messageText then
           Inr (True, show_prompt c ''basic_info'' (Some ''last_name'') w)
         else
           (let regData1 = regData \<lparr> d_lastName := map_option trim messageText,
                                      basicInfoStep := Some ''birth_year'' \<rparr>;
                w1 = updateUserStateField userId (Step (Some ''birth_year'')) w;
                w2 = updateUserStateField userId (Data regData1) w1
            in Inr (True, show_prompt c ''basic_info'' (Some ''birth_year'') w2)))
      else if stp = ''birth_year'' then
        (case accepted_year c (parseInt_opt messageText) of
           None \<Rightarrow>
             Inr (True, show_prompt c ''basic_info'' (Some ''birth_year'')
                          (reply (Reply ''registration.invalid_year'' NoMarkup) w))
         | Some year \<Rightarrow>
             (let regData1 = regData \<lparr> d_birthYear := Some year,
                                        basicInfoStep := Some ''phone'' \<rparr>;
                  w1 = updateUserStateField userId (Step (Some ''phone'')) w;
                  w2 = updateUserStateField userId (Data regData1) w1
              in Inr (True, show_prompt c ''basic_info'' (Some ''phone'') w2)))
      else if stp = ''phone'' then
        (case msg_contact c of
           None \<Rightarrow>
             Inr (True, show_prompt c ''basic_info'' (Some ''phone'')
                          (reply (Reply ''registration.share_contact_please'' NoMarkup) w))
         | Some k \<Rightarrow>
             if user_id k \<noteq> Some (from_id c) then
               Inr (True, show_prompt c ''basic_info'' (Some ''phone'')
                            (reply (Reply ''registration.share_your_own_contact'' NoMarkup) w))
             else
               (let u1 = u \<lparr> profile := (profile u)
                             \<lparr> firstName := set_str (d_firstName regData),
                               lastName := set_str (d_lastName regData),
                               birthYear := d_birthYear regData,
                               phoneNumber := Some (trim (phone_number k)) \<rparr> \<rparr>
                in case user_save userId u1 w of
                     Inl e \<Rightarrow> Inl e
                   | Inr w1 \<Rightarrow>
                       (let nextState = (if isDriver u1 then ''first_offer'' else ''first_order'');
                            nextStep = (if isDriver u1 then ''vehicle_model'' else ''from_location'');
                            w2 = updateUserStateField userId (Current nextState) w1;
                            w3 = updateUserStateField userId (Step (Some nextStep)) w2;
                            w4 = updateUserStateField userId
                                   (Data (if isDriver u1
                                          then no_data \<lparr> offerStep := Some nextStep \<rparr>
                                          else no_data \<lparr> orderStep := Some nextStep \<rparr>)) w3;
                            w5 = reply (Reply ''registration.basic_info_completed'' RemoveKeyboard) w4;
                            later =
                              (if isDriver u1 then
                                 Reply ''registration.create_first_offer'' NoMarkup
                                   # showKeyboardForState c ''first_offer'' (Some ''vehicle_model'')
                               else
                                 Reply ''registration.create_first_order'' NoMarkup
                                   # showKeyboardForState c ''first_order'' (Some ''from_location''))
                        in Inr (True, w5 \<lparr> sent := sent w5 @ map (Later 1000) later \<rparr>))))
      else Inr (False, w))"

text \<open>\<open>x || ''\<close> and \<open>x || 0\<close> on a value that may be absent; \<open>NaN\<close> and 0 are falsy.\<close>

definition or_empty :: "string option \<Rightarrow> string" where
  "or_empty x = (case x of None \<Rightarrow> [] | Some v \<Rightarrow> v)"

definition or_zero :: "number option \<Rightarrow> number" where
  "or_zero x = (case x of None \<Rightarrow> Num 0 | Some v \<Rightarrow> if v = NaN then Num 0 else v)"

text \<open>\<open>!isNaN(price) && price > 0\<close>\<close>

definition positive :: "number \<Rightarrow> bool" where
  "positive x = (case x of NaN \<Rightarrow> False | Num n \<Rightarrow> 0 < n | PosInf \<Rightarrow> True | NegInf \<Rightarrow> False)"

text \<open>\<open>messageText && messageText.trim() !== t(ctx, 'orders.skip')\<close>\<close>

definition not_skipped :: "'a ctx_scheme \<Rightarrow> string option \<Rightarrow> bool" where
  "not_skipped c messageText =
     (case messageText of None \<Rightarrow> False | Some t \<Rightarrow> t \<noteq> [] \<and> trim t \<noteq> skip (i18n c))"

text \<open>\<open>!messageText || messageText.trim().length < 2\<close>\<close>

definition too_short :: "string option \<Rightarrow> bool" where
  "too_short messageText =
     (case messageText of None \<Rightarrow> True | Some t \<Rightarrow> t = [] \<or> length (trim t) < 2)"

text \<open>The first statement of the price step: unless the message is the skip label, the
  characters that are not digits are removed from the text, the rest is parsed, and a
  positive price is stored.\<close>

definition read_price :: "'a ctx_scheme \<Rightarrow> string option \<Rightarrow> state_data \<Rightarrow> state_data" where
  "read_price c messageText orderData =
     (case messageText of
        None \<Rightarrow> orderData
      | Some t \<Rightarrow>
          if t \<noteq> [] \<and> trim t \<noteq> skip (i18n c) then
            (let price = parseInt (filter is_digit t)
             in if positive price then orderData \<lparr> d_price := Some price \<rparr> else orderData)
          else orderData)"

text \<open>
  \<open>handleFirstOrder\<close> and \<open>handleFirstOffer\<close>, as the first version of the middleware module
  defines them. Its \<open>handleRegistrationStates\<close> calls them for the stored states
  \<open>first_order\<close> and \<open>first_offer\<close>, with the stored session in \<open>ctx.userState\<close>; they read
  their step from the data of the session and finish through
  \<open>basicRegistration.completeRegistration\<close>.
\<close>

definition handleFirstOrder ::
  "'a ctx_scheme \<Rightarrow> user \<Rightarrow> session \<Rightarrow> string option \<Rightarrow> world \<Rightarrow> error + bool \<times> world" where
  "handleFirstOrder c u userState messageText w =
     (let userId = from_id c;
          orderData = sdata userState;
          stp = or_else (orderStep orderData) ''from_location''
      in
      if stp = ''from_location'' then
        (if too_short messageText then
           Inr (True, reply (Reply ''orders.enter_from'' NoMarkup) w)
         else
           (let orderData1 = orderData \<lparr> d_from := map_option trim messageText,
                                          orderStep := Some ''to_location'' \<rparr>;
                w1 = updateUserStateField userId (Data orderData1) w
            in Inr (True, reply (Reply ''orders.enter_to'' (Keyboard [skip (i18n c)])) w1)))
      else if stp = ''to_location'' then
        (let orderData1 =
               (if not_skipped c messageText then orderData \<lparr> d_to := map_option trim messageText \<rparr>
                else orderData) \<lparr> orderStep := Some ''description'' \<rparr>;
             w1 = updateUserStateField userId (Data orderData1) w
         in Inr (True, reply (Reply ''orders.enter_description'' (Keyboard [skip (i18n c)])) w1))
      else if stp = ''description'' then
        (let orderData1 =
               (if not_skipped c messageText
                then orderData \<lparr> d_description := map_option trim messageText \<rparr>
                else orderData) \<lparr> orderStep := Some ''price'' \<rparr>;
             w1 = updateUserStateField userId (Data orderData1) w
         in Inr (True, reply (Reply ''orders.enter_price'' (Keyboard [skip (i18n c)])) w1))
      else if stp = ''price'' then
        (let orderData1 = read_price c messageText orderData;
             newOrder = \<lparr> clientId = oid u,
                          cargo_from = set_str (d_from orderData1),
                          cargo_to = trim (or_empty (d_to orderData1)),
                          cargo_description = trim (or_empty (d_description orderData1)),
                          cargo_price = or_zero (d_price orderData1),
                          status = ''active'' \<rparr>
         in case order_save newOrder w of
              Inl e \<Rightarrow> Inl e
            | Inr w1 \<Rightarrow>
                (let w2 = snd (completeRegistration userId w1);
                     w3 = reply (Reply ''orders.order_created'' RemoveKeyboard) w2
                 in Inr (True, reply (Later 1500 MainMenu) w3)))
      else Inr (False, w))"


text \<open>
  \<open>handleRegistrationStates\<close> of the version with steps. An error thrown by a handler is
  caught here: the message counts as not handled. For the states \<open>first_order\<close> and
  \<open>first_offer\<close> it calls \<open>handleFirstOrder\<close> and \<open>handleFirstOffer\<close>, names that its module
  does not define (a comment stands in their place): the call throws a \<open>ReferenceError\<close>.
\<close>

definition handleRegistrationStates ::
  "'a ctx_scheme \<Rightarrow> user \<Rightarrow> session \<Rightarrow> world \<Rightarrow> bool \<times> world" where
  "handleRegistrationStates c u userState w =
     (let messageText = msg_text c;
          currentState = current userState;
          stepNow = currentStep userState;
          r = (if currentState = ''role_selection'' then handleRoleSelection c u messageText w
               else if currentState = ''basic_info'' then
                 handleBasicInfo c u userState messageText stepNow w
               else if currentState = ''first_order'' then Inl ReferenceError
               else if currentState = ''first_offer'' then Inl ReferenceError
               else Inr (False, w))
      in case r of Inl e \<Rightarrow> (False, w) | Inr res \<Rightarrow> res)"

definition handleStartCommand :: "'a ctx_scheme \<Rightarrow> user \<Rightarrow> session \<Rightarrow> world \<Rightarrow> world" where
  "handleStartCommand c u userState w =
     (if current userState = ''completed'' then
        reply (Later 1000 MainMenu) (reply (Reply ''start.welcome_back'' NoMarkup) w)
      else
        show_prompt c (current userState) (currentStep userState)
          (reply (Reply ''start.welcome'' NoMarkup) w))"

text \<open>\<open>Next\<close>: the middleware called \<open>next()\<close>, the message goes on to the ordinary handlers.\<close>

datatype outcome = Consumed | Next

definition new_user :: "'a ctx_scheme \<Rightarrow> world \<Rightarrow> user" where
  "new_user c w =
     \<lparr> oid = nextOid w,
       profile = \<lparr> firstName = Some (trim (or_empty (from_first_name c))),
                   lastName = Some (trim (or_empty (from_last_name c))),
                   birthYear = None, phoneNumber = None, role = None \<rparr>,
       driverInfo = \<lparr> vehicleModel = None, vehicleCategory = None, currentLocation = None \<rparr>,
       registrationCompleted = False \<rparr>"

text \<open>The part of the middleware between loading the session and dispatching: the session
  that goes into \<open>ctx.userState\<close>, and the store after reconciliation.\<close>

definition reconcile :: "nat \<Rightarrow> user \<Rightarrow> bool \<Rightarrow> world \<Rightarrow> session \<times> world" where
  "reconcile userId u isNewUser w =
     (let existingUserState = getUserState userId w;
          derivedState = deriveUserStateWithStep (Some u) existingUserState;
          fromDerived = \<lparr> current = state derivedState, currentStep = step derivedState,
                          sdata = data derivedState \<rparr>
      in case existingUserState of
           None \<Rightarrow>
             (fromDerived,
              if state derivedState \<noteq> ''completed'' then setUserState userId fromDerived w else w)
         | Some ex \<Rightarrow>
             if isNewUser then
               (fromDerived,
                if state derivedState \<noteq> ''completed'' then setUserState userId fromDerived w
                else w)
             else if \<not> validateCurrentState u ex then
               (fromDerived, setUserState userId fromDerived w)
             else (ex, w))"

text \<open>The part of the middleware after \<open>ctx.user\<close> and \<open>ctx.userState\<close> are set.\<close>

definition dispatch :: "'a ctx_scheme \<Rightarrow> user \<Rightarrow> session \<Rightarrow> world \<Rightarrow> outcome \<times> world" where
  "dispatch c u userState w =
     (if msg_text c = Some ''/start'' then (Consumed, handleStartCommand c u userState w)
      else if current userState = ''completed'' then (Next, w)
      else
        (let (handled, w1) = handleRegistrationStates c u userState w in
         if handled then (Consumed, w1) else (Next, w1)))"

text \<open>An error thrown outside the handlers (the save of a new user) is caught by the
  middleware itself, which answers with the general error message.\<close>

definition userStateMiddleware :: "'a ctx_scheme \<Rightarrow> world \<Rightarrow> outcome \<times> world" where
  "userStateMiddleware c w =
     (if callbackQuery c then (Next, w)
      else if chat_type c \<noteq> ''private'' then (Next, w)
      else
        (let userId = from_id c in
         case findByTelegramId userId w of
           Some u \<Rightarrow>
             (let (userState, w2) = reconcile userId u False w in dispatch c u userState w2)
         | None \<Rightarrow>
             (case user_save userId (new_user c w) w of
                Inl e \<Rightarrow> (Consumed, reply (Reply ''errors.general'' NoMarkup) w)
              | Inr w1 \<Rightarrow>
                  (let (userState, w2) =
                         reconcile userId (new_user c w) True (w1 \<lparr> nextOid := Suc (nextOid w) \<rparr>)
                   in dispatch c (new_user c w) userState w2))))"

section \<open>Notions of the specification\<close>

text \<open>A raw string that is an integer as a whole: an optional sign, then digits only.\<close>

definition whole_integer :: "string \<Rightarrow> bool" where
  "whole_integer s = (case strip_sign s of (sg, ds) \<Rightarrow> ds \<noteq> [] \<and> list_all is_digit ds)"

text \<open>A raw string that starts with an integer: after leading white space and an optional
  sign comes a decimal digit, or \<open>0x\<close> and a hexadecimal digit.\<close>

definition digits_after_sign :: "string \<Rightarrow> bool" where
  "digits_after_sign r =
     (case r of
        [] \<Rightarrow> False
      | [a] \<Rightarrow> is_digit a
      | a # b # cs \<Rightarrow>
          if a = CHR ''0'' \<and> (b = CHR ''x'' \<or> b = CHR ''X'')
          then (case cs of [] \<Rightarrow> False | h # _ \<Rightarrow> is_hex_digit h)
          else is_digit a)"

definition leading_integer :: "string \<Rightarrow> bool" where
  "leading_integer s =
     (let r = dropWhile is_space s
      in digits_after_sign
           (case r of [] \<Rightarrow> [] | c # cs \<Rightarrow> if c = CHR ''-'' \<or> c = CHR ''+'' then cs else r))"

text \<open>The dialogue positions that the table of expected input kinds lists.\<close>

definition recognized :: "string \<Rightarrow> string option \<Rightarrow> bool" where
  "recognized st sp =
     (st = ''role_selection'' \<or>
      (case sp of
         None \<Rightarrow> False
       | Some s \<Rightarrow>
           (st, s) \<in> set [(''basic_info'', ''first_name''), (''basic_info'', ''last_name''),
                          (''basic_info'', ''birth_year''), (''basic_info'', ''phone''),
                          (''first_order'', ''from_location''), (''first_order'', ''to_location''),
                          (''first_order'', ''description''), (''first_order'', ''price''),
                          (''first_offer'', ''vehicle_model''),
                          (''first_offer'', ''vehicle_category''),
                          (''first_offer'', ''current_location'')]))"

text \<open>The checklist of the basic information, in its order, and the first field of it that
  the user record lacks.\<close>

definition checklist :: "user \<Rightarrow> (string \<times> bool) list" where
  "checklist u =
     [(''first_name'', truthy (firstName (profile u))),
      (''last_name'', truthy (lastName (profile u))),
      (''birth_year'', truthy_num (birthYear (profile u))),
      (''phone'', truthy (phoneNumber (profile u)))]"

definition first_missing :: "user \<Rightarrow> string option" where
  "first_missing u = map_option fst (find (\<lambda>(name, present). \<not> present) (checklist u))"

text \<open>The fixed step list of each dialogue state.\<close>

definition steps_of :: "string \<Rightarrow> string list" where
  "steps_of st =
     (if st = ''basic_info'' then [''first_name'', ''last_name'', ''birth_year'', ''phone'']
      else if st = ''first_order'' then
        [''from_location'', ''to_location'', ''description'', ''price'']
      else if st = ''first_offer'' then [''vehicle_model'', ''vehicle_category'', ''current_location'']
      else [])"

text \<open>The price that the digits of a text of the price step spell: their number when the
  text is not the skip label and the number is positive, else 0.\<close>

definition exact_price :: "'a ctx_scheme \<Rightarrow> string \<Rightarrow> int" where
  "exact_price c t =
     (if t \<noteq> [] \<and> trim t \<noteq> skip (i18n c) \<and> 0 < digits_value 10 (filter is_digit t)
      then digits_value 10 (filter is_digit t) else 0)"

text \<open>The same for the Number value of the digits.\<close>

definition price_of_text :: "'a ctx_scheme \<Rightarrow> string \<Rightarrow> number" where
  "price_of_text c t =
     (if t \<noteq> [] \<and> trim t \<noteq> skip (i18n c) \<and> filter is_digit t \<noteq> []
         \<and> positive (to_number (digits_value 10 (filter is_digit t)))
      then to_number (digits_value 10 (filter is_digit t)) else Num 0)"


text \<open>A Number that is an integer and not negative.\<close>

definition nonnegative_integer :: "number \<Rightarrow> bool" where
  "nonnegative_integer x = (case x of NaN \<Rightarrow> False | Num n \<Rightarrow> 0 \<le> n | PosInf \<Rightarrow> False
                            | NegInf \<Rightarrow> False)"


section \<open>Sample inputs\<close>

definition ex_labels :: labels where
  "ex_labels = \<lparr> role_client = ''Client'', role_driver = ''Driver'', cat_light = ''Light'',
                 cat_medium = ''Medium'', cat_heavy = ''Heavy'', cat_special = ''Special'',
                 skip = ''Skip'', contact_button = ''Share contact'' \<rparr>"

definition ex_ctx :: ctx where
  "ex_ctx = \<lparr> from_id = 7, from_first_name = Some ''Alice'', from_last_name = None,
              chat_type = ''private'', callbackQuery = False, msg_text = None,
              msg_contact = None, i18n = ex_labels, currentYear = 2025 \<rparr>"

definition ex_user :: user where
  "ex_user = \<lparr> oid = 1,
               profile = \<lparr> firstName = Some ''Alice'', lastName = Some ''Smith'',
                           birthYear = Some 1990, phoneNumber = Some ''+100000'',
                           role = Some ''client'' \<rparr>,
               driverInfo = \<lparr> vehicleModel = None, vehicleCategory = None,
                              currentLocation = None \<rparr>,
               registrationCompleted = False \<rparr>"

definition ex_session :: session where
  "ex_session = \<lparr> current = ''first_order'', currentStep = Some ''from_location'',
                  sdata = no_data \<lparr> orderStep := Some ''from_location'' \<rparr> \<rparr>"

definition ex_world :: world where
  "ex_world = \<lparr> users = [7 \<mapsto> ex_user], userStates = [7 \<mapsto> ex_session],
                registrationData = {}, orders = [], sent = [], nextOid = 2,
                schemaYear = 2025 \<rparr>"

text \<open>A user right after the role choice: the record has the names of the Telegram account
  (no last name here), the session asks for the first name.\<close>

definition ex_fresh_user :: user where
  "ex_fresh_user = ex_user \<lparr> profile := (profile ex_user)
     \<lparr> lastName := Some [], birthYear := None, phoneNumber := None \<rparr> \<rparr>"

definition ex_fresh_session :: session where
  "ex_fresh_session = \<lparr> current = ''basic_info'', currentStep = Some ''first_name'',
     sdata = no_data \<lparr> d_role := Some ''client'', basicInfoStep := Some ''first_name'' \<rparr> \<rparr>"

definition ex_fresh_world :: world where
  "ex_fresh_world = ex_world \<lparr> users := [7 \<mapsto> ex_fresh_user],
                                userStates := [7 \<mapsto> ex_fresh_session] \<rparr>"

text \<open>A finished profile with a session that still says \<open>basic_info\<close>.\<close>

definition ex_stale_world :: world where
  "ex_stale_world = ex_world \<lparr> userStates := [7 \<mapsto> ex_fresh_session] \<rparr>"



text \<open>A client at the price step of the first order.\<close>

definition ex_price_session :: session where
  "ex_price_session = ex_session \<lparr> sdata := no_data
       \<lparr> orderStep := Some ''price'', d_from := Some ''CityA'' \<rparr> \<rparr>"

definition ex_price_world :: world where
  "ex_price_world = ex_world \<lparr> userStates := [7 \<mapsto> ex_price_session] \<rparr>"

text \<open>A text of 310 digits: a one and 309 zeros.\<close>

definition ex_long_number :: string where
  "ex_long_number = CHR ''1'' # replicate 309 (CHR ''0'')"

text \<open>The stores after the client at the price step sent the last message of the first
  order, by the price of the order.\<close>

definition ex_created :: "number \<Rightarrow> world" where
  "ex_created price = ex_price_world
     \<lparr> users := [7 \<mapsto> ex_user \<lparr> registrationCompleted := True \<rparr>],
       userStates := [7 \<mapsto> ex_price_session \<lparr> current := ''completed'',
                                                 currentStep := None \<rparr>],
       orders := [\<lparr> clientId = 1, cargo_from = Some ''CityA'', cargo_to = [],
                    cargo_description = [], cargo_price = price, status = ''active'' \<rparr>],
       sent := [Reply ''orders.order_created'' RemoveKeyboard, Later 1500 MainMenu] \<rparr>"


section \<open>Properties of the step validator\<close>

lemma takeWhile_nonempty:
  "(takeWhile P xs \<noteq> []) = (case xs of [] \<Rightarrow> False | h # _ \<Rightarrow> P h)"
  by (cases xs) simp_all

lemma to_number_not_NaN: "to_number n \<noteq> NaN"
  by (simp add: to_number_def)

lemma after_sign:
  "(case strip_prefix s2 of (radix, s3) \<Rightarrow>
      takeWhile (if radix = 16 then is_hex_digit else is_digit) s3 \<noteq> []) = digits_after_sign s2"
proof (cases s2)
  case Nil
  then show ?thesis by (simp add: strip_prefix_def digits_after_sign_def)
next
  case (Cons a r)
  show ?thesis
  proof (cases r)
    case Nil
    with Cons show ?thesis by (simp add: strip_prefix_def digits_after_sign_def)
  next
    case (Cons b cs)
    with \<open>s2 = a # r\<close> show ?thesis
      by (auto simp add: strip_prefix_def digits_after_sign_def takeWhile_nonempty)
  qed
qed

lemma parseInt_Some:
  "(parseInt s \<noteq> NaN) = digits_after_sign (snd (strip_sign (dropWhile is_space s)))"
proof -
  obtain sg s2 where a: "strip_sign (dropWhile is_space s) = (sg, s2)"
    by (cases "strip_sign (dropWhile is_space s)")
  obtain radix s3 where b: "strip_prefix s2 = (radix, s3)"
    by (cases "strip_prefix s2")
  have "(parseInt s \<noteq> NaN) =
        (takeWhile (if radix = 16 then is_hex_digit else is_digit) s3 \<noteq> [])"
    by (simp add: parseInt_def a b Let_def to_number_not_NaN)
  also have "\<dots> = digits_after_sign s2"
    using after_sign [of s2] b by simp
  finally show ?thesis by (simp add: a)
qed

lemma parseInt_leading: "(parseInt s \<noteq> NaN) = leading_integer s"
proof -
  have h: "snd (strip_sign r) =
           (case r of [] \<Rightarrow> [] | c # cs \<Rightarrow> if c = CHR ''-'' \<or> c = CHR ''+'' then cs else r)"
    for r
    by (cases r) (simp_all add: strip_sign_def)
  have "(parseInt s \<noteq> NaN) = digits_after_sign (snd (strip_sign (dropWhile is_space s)))"
    by (rule parseInt_Some)
  also have "\<dots> = leading_integer s"
    by (simp add: leading_integer_def Let_def h)
  finally show ?thesis .
qed

text \<open>
  C4, as the code has it: the number kind accepts a text exactly when \<open>parseInt\<close> of the raw
  string is a number, that is when the string starts with an integer after leading white
  space; what follows the digits is ignored.
\<close>

theorem number_kind_accepts_leading_integer:
  "getExpectedInputType st sp = Kind ''number'' \<Longrightarrow>
   validateInput c st sp t = (case t of None \<Rightarrow> False | Some s \<Rightarrow> leading_integer s)"
proof -
  assume k: "getExpectedInputType st sp = Kind ''number''"
  have "validateInput c st sp t = (parseInt_opt t \<noteq> NaN)"
    using k by (simp add: validateInput_def)
  also have "\<dots> = (case t of None \<Rightarrow> False | Some s \<Rightarrow> leading_integer s)"
    using parseInt_leading by (cases t) (simp_all add: parseInt_opt_def)
  finally show ?thesis .
qed

theorem number_kind_accepts_leading_integer_witness:
  "getExpectedInputType ''basic_info'' (Some ''birth_year'') = Kind ''number''
   \<and> validateInput ex_ctx ''basic_info'' (Some ''birth_year'') (Some '' 1990 or so'')
   \<and> \<not> validateInput ex_ctx ''basic_info'' (Some ''birth_year'') (Some ''year 1990'')"
proof -
  have k: "getExpectedInputType ''basic_info'' (Some ''birth_year'') = Kind ''number''"
    by (simp add: getExpectedInputType_def)
  have a: "leading_integer '' 1990 or so''"
    by (simp add: leading_integer_def digits_after_sign_def is_space_def is_digit_def)
  have b: "\<not> leading_integer ''year 1990''"
    by (simp add: leading_integer_def digits_after_sign_def is_space_def is_digit_def)
  show ?thesis
    using k a b
      number_kind_accepts_leading_integer [OF k, of ex_ctx "Some '' 1990 or so''"]
      number_kind_accepts_leading_integer [OF k, of ex_ctx "Some ''year 1990''"]
    by simp
qed

text \<open>The claim C4 as written fails: \<open>12abc\<close> is not an integer as a whole, and the number
  kind accepts it.\<close>

theorem number_kind_whole_string_counterexample:
  "\<not> whole_integer ''12abc''
   \<and> validateInput ex_ctx ''basic_info'' (Some ''birth_year'') (Some ''12abc'')"
proof -
  have k: "getExpectedInputType ''basic_info'' (Some ''birth_year'') = Kind ''number''"
    by (simp add: getExpectedInputType_def)
  have a: "leading_integer ''12abc''"
    by (simp add: leading_integer_def digits_after_sign_def is_space_def is_digit_def)
  have v: "validateInput ex_ctx ''basic_info'' (Some ''birth_year'') (Some ''12abc'')"
    using a parseInt_leading [of "''12abc''"] k
    by (simp add: validateInput_def parseInt_opt_def)
  have w: "\<not> whole_integer ''12abc''"
    by (simp add: whole_integer_def strip_sign_def is_digit_def)
  show ?thesis using v w by simp
qed

lemma unknown_kind:
  assumes nr: "\<not> recognized st sp"
  shows "getExpectedInputType st sp = Kind ''unknown''
         \<or> (\<exists>k. sp = Some k \<and> (inherited_function k \<or> k = ''__proto__'')
                \<and> getExpectedInputType st sp = Inherited k)"
proof -
  consider (role) "st = ''role_selection''" | (basic) "st = ''basic_info''"
    | (order) "st = ''first_order''" | (offer) "st = ''first_offer''"
    | (proto) "st = ''__proto__''"
    | (other) "st \<noteq> ''role_selection''" "st \<noteq> ''basic_info''" "st \<noteq> ''first_order''"
        "st \<noteq> ''first_offer''" "st \<noteq> ''__proto__''"
    by blast
  then show ?thesis
  proof cases
    case role
    with nr show ?thesis by (simp add: recognized_def)
  next
    case basic
    with nr show ?thesis
      by (cases sp) (simp_all add: recognized_def getExpectedInputType_def no_own_entry_def)
  next
    case order
    with nr show ?thesis
      by (cases sp) (simp_all add: recognized_def getExpectedInputType_def no_own_entry_def)
  next
    case offer
    with nr show ?thesis
      by (cases sp) (simp_all add: recognized_def getExpectedInputType_def no_own_entry_def)
  next
    case proto
    then show ?thesis
      by (cases sp) (simp_all add: getExpectedInputType_def of_prototype_def)
  next
    case other
    then show ?thesis by (simp add: getExpectedInputType_def)
  qed
qed

lemma unknown_valid:
  "getExpectedInputType st sp = Kind ''unknown'' \<Longrightarrow> validateInput c st sp t"
  by (simp add: validateInput_def)

lemma inherited_valid:
  "getExpectedInputType st sp = Inherited k \<Longrightarrow> validateInput c st sp t"
  by (simp add: validateInput_def)

text \<open>
  C8, as the code has it: at a dialogue position that the table of expected input kinds does
  not list, every input is valid. The expected kind there is \<open>unknown\<close>, unless the step is
  the name of a member that objects inherit from \<open>Object.prototype\<close>, such as \<open>toString\<close>:
  then the lookup in the table can return that member, which the validator accepts all the
  same.
\<close>

theorem unknown_position_fails_open:
  "\<not> recognized st sp \<Longrightarrow>
   validateInput c st sp t
   \<and> (getExpectedInputType st sp = Kind ''unknown''
      \<or> (\<exists>k. sp = Some k \<and> (inherited_function k \<or> k = ''__proto__'')
             \<and> getExpectedInputType st sp = Inherited k))
   \<and> ((case sp of None \<Rightarrow> True | Some k \<Rightarrow> \<not> inherited_function k \<and> k \<noteq> ''__proto__'')
        \<longrightarrow> getExpectedInputType st sp = Kind ''unknown'')"
proof -
  assume nr: "\<not> recognized st sp"
  have k: "getExpectedInputType st sp = Kind ''unknown''
         \<or> (\<exists>k. sp = Some k \<and> (inherited_function k \<or> k = ''__proto__'')
                \<and> getExpectedInputType st sp = Inherited k)"
    using nr by (rule unknown_kind)
  have v: "validateInput c st sp t"
    using k unknown_valid inherited_valid by blast
  show ?thesis
    using k v by (cases sp) auto
qed

theorem unknown_position_fails_open_witness:
  "\<not> recognized ''first_order'' (Some ''weight'')
   \<and> getExpectedInputType ''first_order'' (Some ''weight'') = Kind ''unknown''
   \<and> validateInput ex_ctx ''first_order'' (Some ''weight'') None
   \<and> \<not> recognized ''first_order'' (Some ''valueOf'')
   \<and> validateInput ex_ctx ''first_order'' (Some ''valueOf'') None"
proof -
  have n: "\<not> recognized ''first_order'' (Some ''weight'')"
    by (simp add: recognized_def)
  have m: "\<not> recognized ''first_order'' (Some ''valueOf'')"
    by (simp add: recognized_def)
  have p: "\<not> inherited_function ''weight''"
    by (simp add: inherited_function_def)
  show ?thesis
    using n m p unknown_position_fails_open [OF n, of ex_ctx None]
      unknown_position_fails_open [OF m, of ex_ctx None]
    by simp
qed

text \<open>The claim C8 as written fails: the pair of \<open>basic_info\<close> and \<open>toString\<close> is not in the
  table, and the expected kind there is the inherited function, not \<open>unknown\<close>.\<close>

theorem inherited_member_counterexample:
  "\<not> recognized ''basic_info'' (Some ''toString'')
   \<and> getExpectedInputType ''basic_info'' (Some ''toString'') = Inherited ''toString''
   \<and> getExpectedInputType ''basic_info'' (Some ''toString'') \<noteq> Kind ''unknown''"
  by (simp add: recognized_def getExpectedInputType_def no_own_entry_def
      inherited_function_def)

lemma contact_valid:
  "validateInput c ''basic_info'' (Some ''phone'') t =
     (case msg_contact c of None \<Rightarrow> False | Some k \<Rightarrow> user_id k = Some (from_id c))"
  by (simp add: validateInput_def getExpectedInputType_def)

lemma phone_foreign:
  assumes "or_else sa (or_else (basicInfoStep (sdata us)) ''first_name'') = ''phone''"
    and "msg_contact c = Some k" and "user_id k \<noteq> Some (from_id c)"
  shows "handleBasicInfo c u us t sa w =
     Inr (True, w \<lparr> sent := sent w @ Reply ''registration.share_your_own_contact'' NoMarkup
                              # showKeyboardForState c ''basic_info'' (Some ''phone'') \<rparr>)"
  using assms by (simp add: handleBasicInfo_def Let_def show_prompt_def reply_def)

text \<open>
  C7: at the phone step the contact kind accepts exactly a message that carries a contact
  whose \<open>user_id\<close> is the sender's id. For a contact of somebody else the handler changes no
  store, answers with a notice and sends the phone prompt again.
\<close>

theorem contact_kind_owner_check:
  "getExpectedInputType ''basic_info'' (Some ''phone'') = Kind ''contact''
   \<and> validateInput c ''basic_info'' (Some ''phone'') t =
       (\<exists>k. msg_contact c = Some k \<and> user_id k = Some (from_id c))
   \<and> (\<forall>k. msg_contact c = Some k \<longrightarrow> user_id k \<noteq> Some (from_id c) \<longrightarrow>
          or_else sa (or_else (basicInfoStep (sdata us)) ''first_name'') = ''phone'' \<longrightarrow>
          \<not> validateInput c ''basic_info'' (Some ''phone'') t
          \<and> handleBasicInfo c u us t sa w =
              Inr (True, w \<lparr> sent := sent w @
                     Reply ''registration.share_your_own_contact'' NoMarkup
                       # showKeyboardForState c ''basic_info'' (Some ''phone'') \<rparr>))"
proof -
  have a: "getExpectedInputType ''basic_info'' (Some ''phone'') = Kind ''contact''"
    by (simp add: getExpectedInputType_def)
  have b: "validateInput c ''basic_info'' (Some ''phone'') t =
       (\<exists>k. msg_contact c = Some k \<and> user_id k = Some (from_id c))"
    by (cases "msg_contact c") (simp_all add: contact_valid)
  show ?thesis
    using a b phone_foreign by auto
qed

theorem contact_kind_owner_check_witness:
  "msg_contact (ex_ctx \<lparr> msg_contact := Some \<lparr> phone_number = ''+200000'', user_id = Some 8 \<rparr> \<rparr>)
     = Some \<lparr> phone_number = ''+200000'', user_id = Some 8 \<rparr>
   \<and> from_id ex_ctx = 7
   \<and> \<not> validateInput
         (ex_ctx \<lparr> msg_contact := Some \<lparr> phone_number = ''+200000'', user_id = Some 8 \<rparr> \<rparr>)
         ''basic_info'' (Some ''phone'') None
   \<and> handleBasicInfo
        (ex_ctx \<lparr> msg_contact := Some \<lparr> phone_number = ''+200000'', user_id = Some 8 \<rparr> \<rparr>)
        ex_user ex_session None (Some ''phone'') ex_world =
       Inr (True, ex_world \<lparr> sent :=
              [Reply ''registration.share_your_own_contact'' NoMarkup,
               Reply ''registration.share_contact'' (RequestContact ''Share contact'')] \<rparr>)"
proof -
  let ?c = "ex_ctx \<lparr> msg_contact := Some \<lparr> phone_number = ''+200000'', user_id = Some 8 \<rparr> \<rparr>"
  have s: "or_else (Some ''phone'') (or_else (basicInfoStep (sdata ex_session)) ''first_name'')
           = ''phone''"
    by (simp add: or_else_def)
  have p: "showKeyboardForState ?c ''basic_info'' (Some ''phone'') =
           [Reply ''registration.share_contact'' (RequestContact ''Share contact'')]"
    by (simp add: showKeyboardForState_def showBasicInfoKeyboard_def ex_ctx_def ex_labels_def)
  have e: "sent ex_world = []" by (simp add: ex_world_def)
  show ?thesis
    using s p e
      contact_kind_owner_check [of ?c None "Some ''phone''" ex_session ex_user ex_world]
    by (simp add: ex_ctx_def)
qed

section \<open>Properties of the state deriver\<close>

lemma basic_step_checklist:
  "\<not> truthy (firstName (profile u)) \<or> \<not> truthy (phoneNumber (profile u)) \<Longrightarrow>
   Some (deriveBasicInfoStep u sd) = first_missing u"
  by (cases "basicInfoStep sd")
     (auto simp: deriveBasicInfoStep_def first_missing_def checklist_def Let_def)

lemma basic_step_in: "deriveBasicInfoStep u sd \<in> set (steps_of ''basic_info'')"
  by (cases "basicInfoStep sd") (auto simp: deriveBasicInfoStep_def steps_of_def Let_def)

lemma order_step_in: "deriveOrderStep sd \<in> set (steps_of ''first_order'')"
  by (cases "orderStep sd") (auto simp: deriveOrderStep_def steps_of_def)

lemma offer_step_in: "deriveOfferStep u sd \<in> set (steps_of ''first_offer'')"
  by (cases "offerStep sd") (auto simp: deriveOfferStep_def steps_of_def)

lemma derive_basic:
  assumes "truthy (role (profile u))"
    and "\<not> truthy (firstName (profile u)) \<or> \<not> truthy (phoneNumber (profile u))"
  shows "state (deriveUserStateWithStep (Some u) hint) = ''basic_info''"
    and "step (deriveUserStateWithStep (Some u) hint) =
         Some (deriveBasicInfoStep u (case hint of None \<Rightarrow> no_data | Some s \<Rightarrow> sdata s))"
  using assms by (auto simp: deriveUserStateWithStep_def Let_def)

text \<open>
  C1, as the code has it: for a user record with a role, when the first name or the phone
  number is missing, the derived state is \<open>basic_info\<close> and the derived step is the first
  missing field of the checklist, whatever the session holds.
\<close>

theorem basic_info_first_missing:
  assumes "truthy (role (profile u))"
    and "\<not> truthy (firstName (profile u)) \<or> \<not> truthy (phoneNumber (profile u))"
  shows "state (deriveUserStateWithStep (Some u) hint) = ''basic_info''
         \<and> step (deriveUserStateWithStep (Some u) hint) = first_missing u"
  using derive_basic [OF assms] basic_step_checklist [OF assms(2)] by simp

theorem basic_info_first_missing_witness:
  "truthy (role (profile (ex_user \<lparr> profile := (profile ex_user)
                                      \<lparr> birthYear := None, phoneNumber := None \<rparr> \<rparr>)))
   \<and> state (deriveUserStateWithStep
              (Some (ex_user \<lparr> profile := (profile ex_user)
                                \<lparr> birthYear := None, phoneNumber := None \<rparr> \<rparr>))
              (Some \<lparr> current = ''basic_info'', currentStep = Some ''phone'',
                      sdata = no_data \<lparr> basicInfoStep := Some ''phone'' \<rparr> \<rparr>)) = ''basic_info''
   \<and> step (deriveUserStateWithStep
              (Some (ex_user \<lparr> profile := (profile ex_user)
                                \<lparr> birthYear := None, phoneNumber := None \<rparr> \<rparr>))
              (Some \<lparr> current = ''basic_info'', currentStep = Some ''phone'',
                      sdata = no_data \<lparr> basicInfoStep := Some ''phone'' \<rparr> \<rparr>)) = Some ''birth_year''"
proof -
  let ?u = "ex_user \<lparr> profile := (profile ex_user) \<lparr> birthYear := None, phoneNumber := None \<rparr> \<rparr>"
  have r: "truthy (role (profile ?u))" by (simp add: ex_user_def truthy_def)
  have m: "\<not> truthy (firstName (profile ?u)) \<or> \<not> truthy (phoneNumber (profile ?u))"
    by (simp add: ex_user_def truthy_def)
  have f: "first_missing ?u = Some ''birth_year''"
    by (simp add: first_missing_def checklist_def ex_user_def truthy_def truthy_num_def)
  show ?thesis
    using r f basic_info_first_missing [OF r m] by simp
qed

text \<open>The claim C1 as written fails: a record with a role, a first name and a phone number
  but no last name is not in \<open>basic_info\<close>.\<close>

theorem basic_info_guard_counterexample:
  "truthy (role (profile (ex_user \<lparr> profile := (profile ex_user) \<lparr> lastName := None \<rparr> \<rparr>)))
   \<and> \<not> truthy (lastName (profile (ex_user \<lparr> profile := (profile ex_user) \<lparr> lastName := None \<rparr> \<rparr>)))
   \<and> state (deriveUserStateWithStep
              (Some (ex_user \<lparr> profile := (profile ex_user) \<lparr> lastName := None \<rparr> \<rparr>)) None)
       = ''first_order''
   \<and> step (deriveUserStateWithStep
              (Some (ex_user \<lparr> profile := (profile ex_user) \<lparr> lastName := None \<rparr> \<rparr>)) None)
       = Some ''from_location''"
  by (simp add: deriveUserStateWithStep_def ex_user_def truthy_def isDriver_def
      deriveOrderStep_def no_data_def Let_def)

text \<open>The other half of C1 as the code has it: a record with a role, a first name and a
  phone number is never in \<open>basic_info\<close>, whatever else it lacks.\<close>

lemma name_and_phone_leave_basic_info:
  assumes "truthy (role (profile u))" and "truthy (firstName (profile u))"
    and "truthy (phoneNumber (profile u))"
  shows "state (deriveUserStateWithStep (Some u) hint) =
     (if registrationCompleted u then ''completed''
      else if isDriver u then ''first_offer'' else ''first_order'')"
  using assms by (simp add: deriveUserStateWithStep_def Let_def)

text \<open>
  C9: the derived step is a member of the step list of the derived state, and it is absent
  exactly in the states \<open>role_selection\<close> and \<open>completed\<close>; a step hint outside the list
  does not reach the result.
\<close>

theorem derived_step_in_state_list:
  "(case step (deriveUserStateWithStep user hint) of
      None \<Rightarrow> state (deriveUserStateWithStep user hint) = ''role_selection''
               \<or> state (deriveUserStateWithStep user hint) = ''completed''
    | Some s \<Rightarrow> s \<in> set (steps_of (state (deriveUserStateWithStep user hint))))
   \<and> (step (deriveUserStateWithStep user hint) = None) =
       (state (deriveUserStateWithStep user hint) = ''role_selection''
        \<or> state (deriveUserStateWithStep user hint) = ''completed'')"
proof (cases user)
  case None
  then show ?thesis by (simp add: deriveUserStateWithStep_def)
next
  case (Some u)
  then show ?thesis
    using basic_step_in order_step_in offer_step_in
    by (simp add: deriveUserStateWithStep_def Let_def)
qed

theorem derived_step_in_state_list_witness:
  "state (deriveUserStateWithStep (Some ex_user)
            (Some (ex_session \<lparr> sdata := no_data \<lparr> orderStep := Some ''bogus'' \<rparr> \<rparr>)))
     = ''first_order''
   \<and> step (deriveUserStateWithStep (Some ex_user)
            (Some (ex_session \<lparr> sdata := no_data \<lparr> orderStep := Some ''bogus'' \<rparr> \<rparr>)))
       \<in> Some ` set (steps_of ''first_order'')"
proof -
  let ?d = "deriveUserStateWithStep (Some ex_user)
            (Some (ex_session \<lparr> sdata := no_data \<lparr> orderStep := Some ''bogus'' \<rparr> \<rparr>))"
  have s: "state ?d = ''first_order''"
    by (simp add: deriveUserStateWithStep_def ex_user_def ex_session_def truthy_def
        isDriver_def Let_def)
  show ?thesis
    using s derived_step_in_state_list [of "Some ex_user"
        "Some (ex_session \<lparr> sdata := no_data \<lparr> orderStep := Some ''bogus'' \<rparr> \<rparr>)"]
    by (auto split: option.splits)
qed

section \<open>Properties of the middleware\<close>

lemma reconcile_existing:
  assumes "userStates w uid = Some ex"
  shows "reconcile uid u False w =
     (if state (deriveUserStateWithStep (Some u) (Some ex)) \<noteq> current ex
      then (\<lparr> current = state (deriveUserStateWithStep (Some u) (Some ex)),
              currentStep = step (deriveUserStateWithStep (Some u) (Some ex)),
              sdata = data (deriveUserStateWithStep (Some u) (Some ex)) \<rparr>,
            setUserState uid
              \<lparr> current = state (deriveUserStateWithStep (Some u) (Some ex)),
                currentStep = step (deriveUserStateWithStep (Some u) (Some ex)),
                sdata = data (deriveUserStateWithStep (Some u) (Some ex)) \<rparr> w)
      else (ex, w))"
  using assms by (simp add: reconcile_def getUserState_def validateCurrentState_def Let_def)

lemma middleware_existing:
  assumes "\<not> callbackQuery c" and "chat_type c = ''private''"
    and "users w (from_id c) = Some u" and "userStates w (from_id c) = Some ex"
  shows "userStateMiddleware c w =
     (if state (deriveUserStateWithStep (Some u) (Some ex)) \<noteq> current ex
      then dispatch c u
             \<lparr> current = state (deriveUserStateWithStep (Some u) (Some ex)),
               currentStep = step (deriveUserStateWithStep (Some u) (Some ex)),
               sdata = data (deriveUserStateWithStep (Some u) (Some ex)) \<rparr>
             (setUserState (from_id c)
                \<lparr> current = state (deriveUserStateWithStep (Some u) (Some ex)),
                  currentStep = step (deriveUserStateWithStep (Some u) (Some ex)),
                  sdata = data (deriveUserStateWithStep (Some u) (Some ex)) \<rparr> w)
      else dispatch c u ex w)"
  using assms reconcile_existing [OF assms(4), of u]
  by (simp add: userStateMiddleware_def findByTelegramId_def Let_def)

text \<open>
  C2, as the code has it: for a message in a private chat from a user who has a record and a
  stored session, the middleware compares the states only. When the derived state differs
  from the stored one, the stored session is overwritten with the derived state, step and
  data, and the message is dispatched on that; when the states agree, the stored session is
  dispatched as it is, with its own step.
\<close>

theorem session_follows_derived_state:
  assumes "\<not> callbackQuery c" and "chat_type c = ''private''"
    and "users w (from_id c) = Some u" and "userStates w (from_id c) = Some ex"
  shows "userStateMiddleware c w =
     (if state (deriveUserStateWithStep (Some u) (Some ex)) \<noteq> current ex
      then dispatch c u
             \<lparr> current = state (deriveUserStateWithStep (Some u) (Some ex)),
               currentStep = step (deriveUserStateWithStep (Some u) (Some ex)),
               sdata = data (deriveUserStateWithStep (Some u) (Some ex)) \<rparr>
             (setUserState (from_id c)
                \<lparr> current = state (deriveUserStateWithStep (Some u) (Some ex)),
                  currentStep = step (deriveUserStateWithStep (Some u) (Some ex)),
                  sdata = data (deriveUserStateWithStep (Some u) (Some ex)) \<rparr> w)
      else dispatch c u ex w)"
  using assms by (rule middleware_existing)

theorem session_follows_derived_state_witness:
  "\<not> callbackQuery ex_ctx \<and> chat_type ex_ctx = ''private''
   \<and> users ex_stale_world (from_id ex_ctx) = Some ex_user
   \<and> userStates ex_stale_world (from_id ex_ctx) = Some ex_fresh_session
   \<and> userStateMiddleware ex_ctx ex_stale_world =
       dispatch ex_ctx ex_user
         \<lparr> current = ''first_order'', currentStep = Some ''from_location'',
           sdata = (sdata ex_fresh_session) \<lparr> orderStep := Some ''from_location'' \<rparr> \<rparr>
         (setUserState 7
            \<lparr> current = ''first_order'', currentStep = Some ''from_location'',
              sdata = (sdata ex_fresh_session) \<lparr> orderStep := Some ''from_location'' \<rparr> \<rparr>
            ex_stale_world)"
proof -
  have a: "\<not> callbackQuery ex_ctx" "chat_type ex_ctx = ''private''" "from_id ex_ctx = 7"
    by (simp_all add: ex_ctx_def)
  have u: "users ex_stale_world (from_id ex_ctx) = Some ex_user"
    by (simp add: ex_stale_world_def ex_world_def ex_ctx_def)
  have s: "userStates ex_stale_world (from_id ex_ctx) = Some ex_fresh_session"
    by (simp add: ex_stale_world_def ex_ctx_def)
  have d: "deriveUserStateWithStep (Some ex_user) (Some ex_fresh_session) =
           \<lparr> state = ''first_order'', step = Some ''from_location'',
             data = (sdata ex_fresh_session) \<lparr> orderStep := Some ''from_location'' \<rparr> \<rparr>"
    by (simp add: deriveUserStateWithStep_def ex_user_def ex_fresh_session_def truthy_def
        isDriver_def deriveOrderStep_def no_data_def Let_def)
  have c: "current ex_fresh_session = ''basic_info''" by (simp add: ex_fresh_session_def)
  show ?thesis
    using a u s session_follows_derived_state [OF a(1) a(2) u s]
    by (simp add: d c)
qed

text \<open>The claim C2 as written fails for the step: right after the role choice the derived
  step is \<open>last_name\<close> (the record has a first name), the stored step is \<open>first_name\<close>, the
  states agree, and the session stays as it is.\<close>

theorem stored_step_kept_counterexample:
  "state (deriveUserStateWithStep (Some ex_fresh_user) (Some ex_fresh_session)) = ''basic_info''
   \<and> current ex_fresh_session = ''basic_info''
   \<and> step (deriveUserStateWithStep (Some ex_fresh_user) (Some ex_fresh_session))
       = Some ''last_name''
   \<and> currentStep ex_fresh_session = Some ''first_name''
   \<and> reconcile 7 ex_fresh_user False ex_fresh_world = (ex_fresh_session, ex_fresh_world)"
proof -
  have d: "state (deriveUserStateWithStep (Some ex_fresh_user) (Some ex_fresh_session))
             = ''basic_info''
           \<and> step (deriveUserStateWithStep (Some ex_fresh_user) (Some ex_fresh_session))
             = Some ''last_name''"
    by (simp add: deriveUserStateWithStep_def deriveBasicInfoStep_def ex_fresh_user_def
        ex_user_def ex_fresh_session_def truthy_def no_data_def Let_def)
  have s: "userStates ex_fresh_world 7 = Some ex_fresh_session"
    by (simp add: ex_fresh_world_def)
  have c: "current ex_fresh_session = ''basic_info''"
    "currentStep ex_fresh_session = Some ''first_name''"
    by (simp_all add: ex_fresh_session_def)
  show ?thesis
    using d c by (simp add: reconcile_existing [OF s])
qed

section \<open>Properties of the stores\<close>

lemma dropWhile_rev_trimmed:
  "dropWhile P (rev (dropWhile P (rev (dropWhile P s)))) = rev (dropWhile P (rev (dropWhile P s)))"
proof -
  let ?a = "dropWhile P s"
  let ?b = "dropWhile P (rev ?a)"
  have a: "?a = rev ?b @ rev (takeWhile P (rev ?a))"
  proof -
    have "rev ?b @ rev (takeWhile P (rev ?a)) = rev (takeWhile P (rev ?a) @ ?b)"
      by (simp only: rev_append)
    also have "\<dots> = rev (rev ?a)" by (simp only: takeWhile_dropWhile_id)
    finally show ?thesis by simp
  qed
  show ?thesis
  proof (cases "rev ?b = []")
    case True
    then have b0: "dropWhile P (rev (dropWhile P s)) = []" by (simp only: rev_is_Nil_conv)
    show ?thesis unfolding b0 by simp
  next
    case False
    then have "hd (rev ?b) = hd ?a" using a by (metis hd_append2)
    moreover have "?a \<noteq> []" using a False by (metis append_is_Nil_conv)
    ultimately have "\<not> P (hd (rev ?b))" using hd_dropWhile by metis
    then show ?thesis by (simp add: dropWhile_eq_self_iff)
  qed
qed

lemma trim_idem: "trim (trim s) = trim s"
  by (simp add: trim_def dropWhile_rev_trimmed dropWhile_idem)

lemma trim_Nil: "trim [] = []"
  by (simp add: trim_def)

lemma update_current:
  "userStates w uid = Some s \<Longrightarrow>
   updateUserStateField uid (Current v) w =
     w \<lparr> userStates := (userStates w)(uid \<mapsto> s \<lparr> current := v \<rparr>) \<rparr>"
  by (simp add: updateUserStateField_def setUserState_def)

lemma update_step:
  "userStates w uid = Some s \<Longrightarrow>
   updateUserStateField uid (Step v) w =
     w \<lparr> userStates := (userStates w)(uid \<mapsto> s \<lparr> currentStep := v \<rparr>) \<rparr>"
  by (simp add: updateUserStateField_def setUserState_def)

lemma update_data:
  "userStates w uid = Some s \<Longrightarrow>
   updateUserStateField uid (Data v) w =
     w \<lparr> userStates := (userStates w)(uid \<mapsto> s \<lparr> sdata := v \<rparr>) \<rparr>"
  by (simp add: updateUserStateField_def setUserState_def)

lemma update_keeps [simp]:
  "users (updateUserStateField uid f w) = users w"
  "orders (updateUserStateField uid f w) = orders w"
  "sent (updateUserStateField uid f w) = sent w"
  "schemaYear (updateUserStateField uid f w) = schemaYear w"
  "registrationData (updateUserStateField uid f w) = registrationData w"
  by (simp_all add: updateUserStateField_def setUserState_def split: option.splits)

lemma complete_ok:
  assumes "users w uid = Some u" and "user_valid (schemaYear w) u"
    and "userStates w uid = Some s"
  shows "completeRegistration uid w =
     (True, w \<lparr> users := (users w)(uid \<mapsto> u \<lparr> registrationCompleted := True \<rparr>),
               userStates := (userStates w)(uid \<mapsto> s \<lparr> current := ''completed'',
                                                          currentStep := None \<rparr>),
               registrationData := registrationData w - {uid} \<rparr>)"
proof -
  have v: "user_valid (schemaYear w) (u \<lparr> registrationCompleted := True \<rparr>)"
    using assms(2) by (simp add: user_valid_def)
  let ?w1 = "w \<lparr> users := (users w)(uid \<mapsto> u \<lparr> registrationCompleted := True \<rparr>) \<rparr>"
  have s1: "userStates ?w1 uid = Some s" using assms(3) by simp
  have "updateUserStateField uid (Current ''completed'') ?w1 =
        ?w1 \<lparr> userStates := (userStates ?w1)(uid \<mapsto> s \<lparr> current := ''completed'' \<rparr>) \<rparr>"
    by (rule update_current [OF s1])
  then show ?thesis
    using assms(1) v
    by (simp add: completeRegistration_def findByTelegramId_def user_save_def
        updateUserStateField_def setUserState_def deleteRegistrationData_def)
qed

lemma complete_orders: "orders (snd (completeRegistration uid w)) = orders w"
  by (simp add: completeRegistration_def findByTelegramId_def user_save_def
      deleteRegistrationData_def split: option.splits)


lemma reply_keeps [simp]:
  "users (reply m w) = users w"
  "userStates (reply m w) = userStates w"
  "orders (reply m w) = orders w"
  "schemaYear (reply m w) = schemaYear w"
  by (simp_all add: reply_def)

lemma show_prompt_keeps [simp]:
  "users (show_prompt c st sp w) = users w"
  "userStates (show_prompt c st sp w) = userStates w"
  "orders (show_prompt c st sp w) = orders w"
  "schemaYear (show_prompt c st sp w) = schemaYear w"
  by (simp_all add: show_prompt_def)

lemma update_states_dom:
  "(userStates (updateUserStateField uid f w) uid = None) = (userStates w uid = None)"
  by (simp add: updateUserStateField_def setUserState_def split: option.splits)

section \<open>The session after the final transition\<close>





lemma ex_trims:
  "trim ''Skip'' = ''Skip''" "trim ''CityA'' = ''CityA''" "trim [] = []" "trim ''x'' = ''x''"
  by (simp_all add: trim_def is_space_def)





section \<open>Properties of the first order\<close>

lemma digits_parse:
  assumes "list_all is_digit ds"
  shows "parseInt ds = (if ds = [] then NaN else to_number (digits_value 10 ds))"
proof (cases ds)
  case Nil
  then show ?thesis by (simp add: parseInt_def strip_sign_def strip_prefix_def)
next
  case (Cons a r)
  have da: "is_digit a" using assms Cons by simp
  have ns: "\<not> is_space a" using da by (auto simp: is_digit_def is_space_def)
  have sg: "a \<noteq> CHR ''-''" "a \<noteq> CHR ''+''" using da by (auto simp: is_digit_def)
  have tw: "takeWhile is_digit ds = ds" using assms by (simp add: list_all_iff)
  have sp: "strip_prefix ds = (10, ds)"
  proof (cases r)
    case Nil
    with Cons show ?thesis by (simp add: strip_prefix_def)
  next
    case (Cons b cs)
    have "is_digit b" using assms \<open>ds = a # r\<close> Cons by simp
    then have "b \<noteq> CHR ''x''" "b \<noteq> CHR ''X''" by (auto simp: is_digit_def)
    with Cons \<open>ds = a # r\<close> show ?thesis by (simp add: strip_prefix_def)
  qed
  have ss: "strip_sign (dropWhile is_space ds) = (1, ds)"
    using Cons ns sg by (simp add: strip_sign_def)
  have ne: "ds \<noteq> []" using Cons by simp
  show ?thesis
    by (simp add: parseInt_def ss sp tw ne)
qed

lemma filter_digits_parse:
  "parseInt (filter is_digit t) =
     (if filter is_digit t = [] then NaN else to_number (digits_value 10 (filter is_digit t)))"
  by (rule digits_parse) (simp add: list_all_iff)

lemma digits_value_Nil: "digits_value radix [] = 0"
  by (simp add: digits_value_def)

lemma parseInt_Nil: "parseInt [] = NaN"
  by (simp add: parseInt_def strip_sign_def strip_prefix_def)

lemma digits_value_snoc:
  "digits_value radix (ds @ [d]) = digits_value radix ds * radix + digit_value d"
  by (simp add: digits_value_def)

lemma digit_value_range: "is_digit d \<Longrightarrow> 0 \<le> digit_value d \<and> digit_value d \<le> 9"
  by (simp add: is_digit_def digit_value_def Let_def)

lemma digits_value_bound:
  "list_all is_digit ds \<Longrightarrow> 0 \<le> digits_value 10 ds \<and> digits_value 10 ds < 10 ^ length ds"
proof (induction ds rule: rev_induct)
  case Nil
  then show ?case by (simp add: digits_value_Nil)
next
  case (snoc d ds)
  have r: "0 \<le> digit_value d \<and> digit_value d \<le> 9"
    using snoc.prems by (simp add: digit_value_range)
  have h: "0 \<le> digits_value 10 ds \<and> digits_value 10 ds < 10 ^ length ds"
    using snoc by simp
  have "digits_value 10 ds + 1 \<le> 10 ^ length ds" using h by simp
  then have "(digits_value 10 ds + 1) * 10 \<le> 10 ^ length ds * 10"
    by (simp only: mult_right_mono)
  then show ?case using r h by (simp add: digits_value_snoc algebra_simps)
qed

lemma exponent53_small: "n < 2 ^ 53 \<Longrightarrow> exponent53 n = 0"
  by (simp add: exponent53.simps)

lemma round53_small: "n < 2 ^ 53 \<Longrightarrow> round53 n = n"
  by (simp add: round53_def exponent53_small)

lemma round53_nonneg: "0 \<le> n \<Longrightarrow> 0 \<le> round53 n"
  by (simp add: round53_def Let_def pos_imp_zdiv_nonneg_iff)

lemma to_number_small: "0 \<le> n \<Longrightarrow> n < 2 ^ 53 \<Longrightarrow> to_number n = Num n"
proof -
  assume a: "0 \<le> n" and b: "n < 2 ^ 53"
  have "(2::int) ^ 53 \<le> 2 ^ 1024 - 2 ^ 970" by simp
  then have "\<not> 2 ^ 1024 - 2 ^ 970 \<le> n" using b by linarith
  then show ?thesis using a b by (simp add: to_number_def round53_small)
qed

lemma to_number_finite:
  "0 \<le> n \<Longrightarrow> n < 10 ^ 308 \<Longrightarrow> nonnegative_integer (to_number n)"
proof -
  assume a: "0 \<le> n" and b: "n < 10 ^ 308"
  have "(10::int) ^ 308 \<le> 2 ^ 1024 - 2 ^ 970" by simp
  then have "\<not> 2 ^ 1024 - 2 ^ 970 \<le> n" using b by linarith
  then show ?thesis
    using a by (simp add: to_number_def nonnegative_integer_def round53_nonneg)
qed

lemma positive_at_least_zero: "positive x \<Longrightarrow> at_least_zero x"
  by (cases x) (simp_all add: positive_def at_least_zero_def)

lemma price_of_text_at_least_zero: "at_least_zero (price_of_text c t)"
proof -
  have z: "at_least_zero (Num 0)" by (simp add: at_least_zero_def)
  show ?thesis
  proof (cases "positive (to_number (digits_value 10 (filter is_digit t)))")
    case True
    then have "at_least_zero (to_number (digits_value 10 (filter is_digit t)))"
      by (rule positive_at_least_zero)
    then show ?thesis using z by (simp add: price_of_text_def)
  next
    case False
    then show ?thesis using z by (simp add: price_of_text_def)
  qed
qed

lemma price_of_text_exact:
  assumes "length (filter is_digit t) \<le> 15"
  shows "price_of_text c t = Num (exact_price c t) \<and> 0 \<le> exact_price c t"
proof -
  let ?n = "digits_value 10 (filter is_digit t)"
  have d: "list_all is_digit (filter is_digit t)" by (simp add: list_all_iff)
  have b: "0 \<le> ?n \<and> ?n < 10 ^ length (filter is_digit t)"
    using d by (rule digits_value_bound)
  have "(10::int) ^ length (filter is_digit t) \<le> 10 ^ 15"
    using assms by (simp only: power_increasing one_le_numeral)
  also have "\<dots> < 2 ^ 53" by simp
  finally have "?n < 2 ^ 53" using b by linarith
  then have n: "to_number ?n = Num ?n" using b by (simp add: to_number_small)
  have z: "filter is_digit t = [] \<Longrightarrow> ?n = 0" by (simp add: digits_value_Nil)
  show ?thesis
    using z by (auto simp: price_of_text_def exact_price_def n positive_def)
qed

lemma price_of_text_finite:
  assumes "length (filter is_digit t) \<le> 308"
  shows "nonnegative_integer (price_of_text c t)"
proof -
  let ?n = "digits_value 10 (filter is_digit t)"
  have d: "list_all is_digit (filter is_digit t)" by (simp add: list_all_iff)
  have b: "0 \<le> ?n \<and> ?n < 10 ^ length (filter is_digit t)"
    using d by (rule digits_value_bound)
  have "(10::int) ^ length (filter is_digit t) \<le> 10 ^ 308"
    using assms by (simp only: power_increasing one_le_numeral)
  then have "?n < 10 ^ 308" using b by linarith
  then have "nonnegative_integer (to_number ?n)" using b by (simp add: to_number_finite)
  then show ?thesis by (simp add: price_of_text_def nonnegative_integer_def)
qed

lemma read_price_fields:
  "d_from (read_price c mt od) = d_from od"
  "d_to (read_price c mt od) = d_to od"
  "d_description (read_price c mt od) = d_description od"
  by (simp_all add: read_price_def Let_def split: option.splits)

lemma read_price_value:
  assumes "d_price od = None"
  shows "or_zero (d_price (read_price c (Some t) od)) = price_of_text c t"
proof (cases "filter is_digit t = []")
  case True
  then show ?thesis
    using assms
    by (simp add: read_price_def price_of_text_def parseInt_Nil or_zero_def Let_def
        positive_def)
next
  case False
  have p: "parseInt (filter is_digit t) = to_number (digits_value 10 (filter is_digit t))"
    using False by (simp add: filter_digits_parse)
  show ?thesis
    using False assms
    by (simp add: read_price_def price_of_text_def p or_zero_def Let_def to_number_not_NaN)
qed

lemma price_step_order:
  assumes "orderStep (sdata us) = Some ''price''" and "d_price (sdata us) = None"
  shows "handleFirstOrder c u us (Some t) w =
     (case order_save \<lparr> clientId = oid u, cargo_from = set_str (d_from (sdata us)),
                        cargo_to = trim (or_empty (d_to (sdata us))),
                        cargo_description = trim (or_empty (d_description (sdata us))),
                        cargo_price = price_of_text c t, status = ''active'' \<rparr> w of
        Inl e \<Rightarrow> Inl e
      | Inr w1 \<Rightarrow>
          Inr (True, reply (Later 1500 MainMenu)
                       (reply (Reply ''orders.order_created'' RemoveKeyboard)
                          (snd (completeRegistration (from_id c) w1)))))"
  using assms
  by (simp add: handleFirstOrder_def or_else_def Let_def read_price_fields read_price_value
      split: sum.splits)

lemma long_digits: "list_all is_digit (CHR ''1'' # replicate n (CHR ''0''))"
  by (simp add: list_all_iff is_digit_def)

lemma long_fold:
  "foldl (\<lambda>acc c. acc * 10 + digit_value c) a (replicate n (CHR ''0'')) = a * 10 ^ n"
  by (induction n arbitrary: a) (simp_all add: digit_value_def)

lemma long_value: "digits_value 10 (CHR ''1'' # replicate n (CHR ''0'')) = 10 ^ n"
proof -
  have "digits_value 10 (CHR ''1'' # replicate n (CHR ''0'')) =
        foldl (\<lambda>acc c. acc * 10 + digit_value c) (digit_value CHR ''1'')
          (replicate n (CHR ''0''))"
    by (simp add: digits_value_def)
  also have "\<dots> = digit_value CHR ''1'' * 10 ^ n" by (rule long_fold)
  also have "\<dots> = 10 ^ n" by (simp add: digit_value_def)
  finally show ?thesis .
qed

lemma no_space_trim: "list_all (\<lambda>c. \<not> is_space c) s \<Longrightarrow> trim s = s"
proof -
  assume a: "list_all (\<lambda>c. \<not> is_space c) s"
  have b: "list_all (\<lambda>c. \<not> is_space c) (rev s)" using a by (simp add: list_all_iff)
  have d: "dropWhile is_space xs = xs" if "list_all (\<lambda>c. \<not> is_space c) xs" for xs
    using that by (cases xs) simp_all
  show ?thesis by (simp add: trim_def d [OF a] d [OF b])
qed

lemma long_trim: "trim (CHR ''1'' # replicate n (CHR ''0'')) = CHR ''1'' # replicate n (CHR ''0'')"
  by (rule no_space_trim) (simp add: list_all_iff is_space_def)

lemma long_price: "price_of_text ex_ctx ex_long_number = PosInf"
proof -
  have f: "filter is_digit ex_long_number = ex_long_number"
    unfolding ex_long_number_def using long_digits [of 309]
    by (simp only: filter_id_conv list_all_iff)
  have v: "digits_value 10 ex_long_number = 10 ^ 309"
    unfolding ex_long_number_def by (rule long_value)
  have t: "trim ex_long_number = ex_long_number"
    unfolding ex_long_number_def by (rule long_trim)
  have n: "ex_long_number \<noteq> []" "ex_long_number \<noteq> ''Skip''"
    unfolding ex_long_number_def by simp_all
  have i: "to_number (10 ^ 309) = PosInf" by (simp add: to_number_def)
  have pv: "to_number (digits_value 10 ex_long_number) = PosInf" by (simp only: v i)
  show ?thesis
    by (simp add: price_of_text_def f pv t n positive_def ex_ctx_def ex_labels_def)
qed

lemma ex_price_long:
  "handleFirstOrder ex_ctx ex_user ex_price_session (Some ex_long_number) ex_price_world =
     Inr (True, ex_created PosInf)"
proof -
  have a: "orderStep (sdata ex_price_session) = Some ''price''"
    "d_price (sdata ex_price_session) = None"
    by (simp_all add: ex_price_session_def no_data_def)
  have "handleFirstOrder ex_ctx ex_user ex_price_session (Some ex_long_number) ex_price_world =
     (case order_save \<lparr> clientId = oid ex_user,
                        cargo_from = set_str (d_from (sdata ex_price_session)),
                        cargo_to = trim (or_empty (d_to (sdata ex_price_session))),
                        cargo_description = trim (or_empty (d_description (sdata ex_price_session))),
                        cargo_price = PosInf, status = ''active'' \<rparr> ex_price_world of
        Inl e \<Rightarrow> Inl e
      | Inr w1 \<Rightarrow>
          Inr (True, reply (Later 1500 MainMenu)
                       (reply (Reply ''orders.order_created'' RemoveKeyboard)
                          (snd (completeRegistration (from_id ex_ctx) w1)))))"
    by (simp only: price_step_order [OF a] long_price)
  also have "\<dots> = Inr (True, ex_created PosInf)"
    by (simp add: findByTelegramId_def updateUserStateField_def setUserState_def reply_def ex_world_def
      ex_user_def ex_session_def ex_ctx_def ex_labels_def no_data_def Let_def
      ex_price_world_def ex_price_session_def ex_trims completeRegistration_def user_save_def
      user_valid_def in_enum_def order_save_def order_valid_def at_least_zero_def truthy_def
      deleteRegistrationData_def set_str_def or_empty_def ex_created_def)
  finally show ?thesis .
qed

text \<open>
  C10, as the code has it: at the price step, with a from-location in the session and no
  price stored yet, every text creates one order. Its price is the Number value of the
  digits of the text when the text is not the skip label and that value is positive, and 0
  otherwise; it is never negative and never \<open>NaN\<close>. For a text of at most 308 digits the
  price is a nonnegative integer, and for a text of at most 15 digits it is the very number
  that the digits spell. (Between the two, the value is the nearest integer that a double
  represents; from 309 digits on it can be infinite.)
\<close>

theorem price_step_price_nonnegative:
  assumes "orderStep (sdata us) = Some ''price''" and "d_price (sdata us) = None"
    and "truthy (set_str (d_from (sdata us)))"
    and "length (trim (or_empty (d_description (sdata us)))) \<le> 1000"
  shows "\<exists>w' od. handleFirstOrder c u us (Some t) w = Inr (True, w')
           \<and> orders w' = orders w @ [od]
           \<and> cargo_price od = price_of_text c t \<and> at_least_zero (cargo_price od)
           \<and> (length (filter is_digit t) \<le> 308 \<longrightarrow> nonnegative_integer (cargo_price od))
           \<and> (length (filter is_digit t) \<le> 15 \<longrightarrow>
                cargo_price od = Num (exact_price c t) \<and> 0 \<le> exact_price c t)"
proof -
  let ?od = "\<lparr> clientId = oid u, cargo_from = set_str (d_from (sdata us)),
                        cargo_to = trim (or_empty (d_to (sdata us))),
                        cargo_description = trim (or_empty (d_description (sdata us))),
                        cargo_price = price_of_text c t, status = ''active'' \<rparr>"
  have p: "at_least_zero (price_of_text c t)" by (rule price_of_text_at_least_zero)
  have v: "order_valid ?od" using assms(3,4) p by (simp add: order_valid_def)
  have s: "order_save ?od w = Inr (w \<lparr> orders := orders w @ [?od] \<rparr>)"
    using v by (simp add: order_save_def)
  have r: "handleFirstOrder c u us (Some t) w =
     Inr (True, reply (Later 1500 MainMenu)
                       (reply (Reply ''orders.order_created'' RemoveKeyboard)
                          (snd (completeRegistration (from_id c)
                                  (w \<lparr> orders := orders w @ [?od] \<rparr>)))))"
    by (simp add: price_step_order [OF assms(1,2)] s)
  have o: "orders (reply (Later 1500 MainMenu)
                       (reply (Reply ''orders.order_created'' RemoveKeyboard)
                          (snd (completeRegistration (from_id c)
                                  (w \<lparr> orders := orders w @ [?od] \<rparr>))))) = orders w @ [?od]"
    by (simp add: complete_orders)
  have e: "length (filter is_digit t) \<le> 15 \<longrightarrow>
           price_of_text c t = Num (exact_price c t) \<and> 0 \<le> exact_price c t"
    using price_of_text_exact by blast
  have f: "length (filter is_digit t) \<le> 308 \<longrightarrow> nonnegative_integer (price_of_text c t)"
    using price_of_text_finite by blast
  show ?thesis
    using r o p e f by (intro exI [of _ "reply (Later 1500 MainMenu)
                       (reply (Reply ''orders.order_created'' RemoveKeyboard)
                          (snd (completeRegistration (from_id c)
                                  (w \<lparr> orders := orders w @ [?od] \<rparr>))))"] exI [of _ ?od])
       simp
qed

theorem price_step_price_nonnegative_witness:
  "orderStep (sdata ex_price_session) = Some ''price''
   \<and> d_price (sdata ex_price_session) = None
   \<and> exact_price ex_ctx ''-1 500 USD'' = 1500
   \<and> (\<exists>w' od. handleFirstOrder ex_ctx ex_user ex_price_session (Some ''-1 500 USD'') ex_world
                  = Inr (True, w')
          \<and> orders w' = orders ex_world @ [od] \<and> cargo_price od = Num 1500)"
proof -
  have a: "orderStep (sdata ex_price_session) = Some ''price''"
    "d_price (sdata ex_price_session) = None"
    by (simp_all add: ex_price_session_def no_data_def)
  have t: "trim ''-1 500 USD'' = ''-1 500 USD''"
    by (simp_all add: trim_def is_space_def)
  have b: "truthy (set_str (d_from (sdata ex_price_session)))"
    by (simp add: ex_price_session_def set_str_def truthy_def ex_trims)
  have c: "length (trim (or_empty (d_description (sdata ex_price_session)))) \<le> 1000"
    by (simp add: ex_price_session_def no_data_def or_empty_def ex_trims)
  have f: "filter is_digit ''-1 500 USD'' = ''1500''"
    by (simp add: is_digit_def)
  have d: "length (filter is_digit ''-1 500 USD'') \<le> 15"
    by (simp add: f)
  have p: "exact_price ex_ctx ''-1 500 USD'' = 1500"
    by (simp add: exact_price_def t ex_ctx_def ex_labels_def digits_value_def
        digit_value_def is_digit_def)
  show ?thesis
    using a p d price_step_price_nonnegative [OF a b c, of ex_ctx ex_user "''-1 500 USD''" ex_world]
    by auto
qed

text \<open>The claim C10 as written fails: for a text of a one and 309 zeros the price of the
  created order is infinite, which is not an integer.\<close>

theorem price_infinite_counterexample:
  "handleFirstOrder ex_ctx ex_user ex_price_session (Some ex_long_number) ex_price_world
     = Inr (True, ex_created PosInf)
   \<and> map cargo_price (orders (ex_created PosInf)) = [PosInf]
   \<and> \<not> nonnegative_integer PosInf"
  by (simp add: ex_price_long) (simp add: ex_created_def nonnegative_integer_def)

lemma order_from_step:
  assumes "userStates w (from_id c) = Some s"
    and "or_else (orderStep (sdata s)) ''from_location'' = ''from_location''"
    and "\<not> too_short (Some t)"
  shows "handleFirstOrder c u s (Some t) w =
     Inr (True, w \<lparr> userStates := (userStates w)(from_id c \<mapsto>
                       s \<lparr> sdata := (sdata s) \<lparr> d_from := Some (trim t),
                                                orderStep := Some ''to_location'' \<rparr> \<rparr>),
                     sent := sent w @ [Reply ''orders.enter_to'' (Keyboard [skip (i18n c)])] \<rparr>)"
  using assms
  by (simp add: handleFirstOrder_def Let_def update_data reply_def)

lemma order_to_step:
  assumes "userStates w (from_id c) = Some s0"
    and "or_else (orderStep (sdata s)) ''from_location'' = ''to_location''"
  shows "handleFirstOrder c u s t w =
     Inr (True, w \<lparr> userStates := (userStates w)(from_id c \<mapsto>
                       s0 \<lparr> sdata := (if not_skipped c t
                                       then (sdata s) \<lparr> d_to := map_option trim t \<rparr>
                                       else sdata s) \<lparr> orderStep := Some ''description'' \<rparr> \<rparr>),
                     sent := sent w @
                       [Reply ''orders.enter_description'' (Keyboard [skip (i18n c)])] \<rparr>)"
  using assms
  by (simp add: handleFirstOrder_def Let_def update_data reply_def)

lemma order_description_step:
  assumes "userStates w (from_id c) = Some s0"
    and "or_else (orderStep (sdata s)) ''from_location'' = ''description''"
  shows "handleFirstOrder c u s t w =
     Inr (True, w \<lparr> userStates := (userStates w)(from_id c \<mapsto>
                       s0 \<lparr> sdata := (if not_skipped c t
                                       then (sdata s) \<lparr> d_description := map_option trim t \<rparr>
                                       else sdata s) \<lparr> orderStep := Some ''price'' \<rparr> \<rparr>),
                     sent := sent w @
                       [Reply ''orders.enter_price'' (Keyboard [skip (i18n c)])] \<rparr>)"
  using assms
  by (simp add: handleFirstOrder_def Let_def update_data reply_def)

lemma skip_is_skipped:
  "trim (skip (i18n c)) = skip (i18n c) \<Longrightarrow> \<not> not_skipped c (Some (skip (i18n c)))"
  by (simp add: not_skipped_def)

lemma price_of_skip:
  "trim (skip (i18n c)) = skip (i18n c) \<Longrightarrow> price_of_text c (skip (i18n c)) = Num 0"
  by (simp add: price_of_text_def)

lemma order_price_skip:
  assumes "userStates w (from_id c) = Some s"
    and "orderStep (sdata s) = Some ''price''" and "d_price (sdata s) = None"
    and "d_to (sdata s) = None" and "d_description (sdata s) = None"
    and "d_from (sdata s) = Some f" and "trim f = f" and "f \<noteq> []"
    and "users w (from_id c) = Some u" and "user_valid (schemaYear w) u"
    and "trim (skip (i18n c)) = skip (i18n c)"
  shows "handleFirstOrder c u s (Some (skip (i18n c))) w =
     Inr (True, w \<lparr> orders := orders w @
                       [\<lparr> clientId = oid u, cargo_from = Some f, cargo_to = [],
                          cargo_description = [], cargo_price = Num 0, status = ''active'' \<rparr>],
                     users := (users w)(from_id c \<mapsto> u \<lparr> registrationCompleted := True \<rparr>),
                     userStates := (userStates w)(from_id c \<mapsto>
                       s \<lparr> current := ''completed'', currentStep := None \<rparr>),
                     registrationData := registrationData w - {from_id c},
                     sent := sent w @ [Reply ''orders.order_created'' RemoveKeyboard,
                                       Later 1500 MainMenu] \<rparr>)"
proof -
  let ?od = "\<lparr> clientId = oid u, cargo_from = Some f, cargo_to = [],
                cargo_description = [], cargo_price = Num 0, status = ''active'' \<rparr>"
  let ?w1 = "w \<lparr> orders := orders w @ [?od] \<rparr>"
  have sv: "order_save ?od w = Inr ?w1"
    using assms(8) by (simp add: order_save_def order_valid_def truthy_def at_least_zero_def)
  have cr: "completeRegistration (from_id c) ?w1 =
     (True, ?w1 \<lparr> users := (users ?w1)(from_id c \<mapsto> u \<lparr> registrationCompleted := True \<rparr>),
               userStates := (userStates ?w1)(from_id c \<mapsto> s \<lparr> current := ''completed'',
                                                          currentStep := None \<rparr>),
               registrationData := registrationData ?w1 - {from_id c} \<rparr>)"
    by (rule complete_ok) (simp_all add: assms)
  show ?thesis
    using assms(4-7)
    by (simp add: price_step_order [OF assms(2,3)] price_of_skip [OF assms(11)] set_str_def
        or_empty_def trim_Nil sv cr reply_def)
qed

text \<open>
  C6: a client in \<open>first_order\<close>, at the from-location step with no destination, description
  or price stored, sends a valid from-location and then the skip label three times; each
  message is handled with the session that the store holds. The first three messages
  create no order. After the fourth there is exactly one more order, from the (trimmed)
  from-location, with empty destination and description and price 0; the record is
  completed and the dialogue state is \<open>completed\<close>.
\<close>

theorem first_order_all_skipped:
  assumes u: "users w (from_id c) = Some u"
    and cl: "role (profile u) = Some ''client''" "truthy (firstName (profile u))"
      "truthy (phoneNumber (profile u))"
    and uv: "user_valid (schemaYear w) u"
    and s: "userStates w (from_id c) = Some s"
      "or_else (orderStep (sdata s)) ''from_location'' = ''from_location''"
      "d_to (sdata s) = None" "d_description (sdata s) = None" "d_price (sdata s) = None"
    and t: "\<not> too_short (Some t)"
    and k: "trim (skip (i18n c)) = skip (i18n c)"
  shows "\<exists>w1 s1 w2 s2 w3 s3 w4.
           handleFirstOrder c u s (Some t) w = Inr (True, w1)
         \<and> users w1 (from_id c) = Some u \<and> userStates w1 (from_id c) = Some s1
         \<and> handleFirstOrder c u s1 (Some (skip (i18n c))) w1 = Inr (True, w2)
         \<and> users w2 (from_id c) = Some u \<and> userStates w2 (from_id c) = Some s2
         \<and> handleFirstOrder c u s2 (Some (skip (i18n c))) w2 = Inr (True, w3)
         \<and> users w3 (from_id c) = Some u \<and> userStates w3 (from_id c) = Some s3
         \<and> handleFirstOrder c u s3 (Some (skip (i18n c))) w3 = Inr (True, w4)
         \<and> orders w1 = orders w \<and> orders w2 = orders w \<and> orders w3 = orders w
         \<and> orders w4 = orders w @
              [\<lparr> clientId = oid u, cargo_from = Some (trim t), cargo_to = [],
                 cargo_description = [], cargo_price = Num 0, status = ''active'' \<rparr>]
         \<and> users w4 (from_id c) = Some (u \<lparr> registrationCompleted := True \<rparr>)
         \<and> state (deriveUserStateWithStep (users w4 (from_id c)) (userStates w4 (from_id c)))
             = ''completed''
         \<and> map_option current (userStates w4 (from_id c)) = Some ''completed''"
proof -
  let ?k = "Some (skip (i18n c))"
  let ?od = "\<lparr> clientId = oid u, cargo_from = Some (trim t), cargo_to = [],
                cargo_description = [], cargo_price = Num 0, status = ''active'' \<rparr>"
  define s1 where "s1 = s \<lparr> sdata := (sdata s) \<lparr> d_from := Some (trim t),
                                               orderStep := Some ''to_location'' \<rparr> \<rparr>"
  define w1 where "w1 = w \<lparr> userStates := (userStates w)(from_id c \<mapsto> s1),
                 sent := sent w @ [Reply ''orders.enter_to'' (Keyboard [skip (i18n c)])] \<rparr>"
  define s2 where "s2 = s1 \<lparr> sdata := (sdata s1) \<lparr> orderStep := Some ''description'' \<rparr> \<rparr>"
  define w2 where "w2 = w1 \<lparr> userStates := (userStates w1)(from_id c \<mapsto> s2),
                 sent := sent w1 @
                   [Reply ''orders.enter_description'' (Keyboard [skip (i18n c)])] \<rparr>"
  define s3 where "s3 = s2 \<lparr> sdata := (sdata s2) \<lparr> orderStep := Some ''price'' \<rparr> \<rparr>"
  define w3 where "w3 = w2 \<lparr> userStates := (userStates w2)(from_id c \<mapsto> s3),
                 sent := sent w2 @ [Reply ''orders.enter_price'' (Keyboard [skip (i18n c)])] \<rparr>"
  define w4 where "w4 = w3 \<lparr> orders := orders w3 @ [?od],
                 users := (users w3)(from_id c \<mapsto> u \<lparr> registrationCompleted := True \<rparr>),
                 userStates := (userStates w3)(from_id c \<mapsto>
                       s3 \<lparr> current := ''completed'', currentStep := None \<rparr>),
                 registrationData := registrationData w3 - {from_id c},
                 sent := sent w3 @ [Reply ''orders.order_created'' RemoveKeyboard,
                                    Later 1500 MainMenu] \<rparr>"
  have ne: "trim t \<noteq> []" using t by (auto simp: too_short_def)
  have ns: "\<not> not_skipped c ?k" using k by (rule skip_is_skipped)
  have p1: "users w1 (from_id c) = Some u" "userStates w1 (from_id c) = Some s1"
    "or_else (orderStep (sdata s1)) ''from_location'' = ''to_location''"
    using u by (simp_all add: w1_def s1_def or_else_def)
  have p2: "users w2 (from_id c) = Some u" "userStates w2 (from_id c) = Some s2"
    "or_else (orderStep (sdata s2)) ''from_location'' = ''description''"
    using p1(1) by (simp_all add: w2_def s2_def or_else_def)
  have p3: "users w3 (from_id c) = Some u" "userStates w3 (from_id c) = Some s3"
    "orderStep (sdata s3) = Some ''price''"
    using p2(1) by (simp_all add: w3_def s3_def)
  have d3: "d_price (sdata s3) = None" "d_to (sdata s3) = None"
    "d_description (sdata s3) = None" "d_from (sdata s3) = Some (trim t)"
    using s(3-5) by (simp_all add: s3_def s2_def s1_def)
  have y3: "user_valid (schemaYear w3) u"
    using uv by (simp add: w3_def w2_def w1_def)
  have h1: "handleFirstOrder c u s (Some t) w = Inr (True, w1)"
    using order_from_step [OF s(1,2) t, of u] by (simp add: w1_def s1_def)
  have h2: "handleFirstOrder c u s1 ?k w1 = Inr (True, w2)"
    using order_to_step [OF p1(2,3), of u ?k] ns by (simp add: w2_def s2_def)
  have h3: "handleFirstOrder c u s2 ?k w2 = Inr (True, w3)"
    using order_description_step [OF p2(2,3), of u ?k] ns by (simp add: w3_def s3_def)
  have h4: "handleFirstOrder c u s3 ?k w3 = Inr (True, w4)"
    using order_price_skip [OF p3(2,3) d3 trim_idem ne p3(1) y3 k]
    by (simp add: w4_def)
  have o: "orders w1 = orders w" "orders w2 = orders w" "orders w3 = orders w"
    "orders w4 = orders w @ [?od]"
    by (simp_all add: w4_def w3_def w2_def w1_def)
  have f: "users w4 (from_id c) = Some (u \<lparr> registrationCompleted := True \<rparr>)"
    "userStates w4 (from_id c) = Some (s3 \<lparr> current := ''completed'', currentStep := None \<rparr>)"
    by (simp_all add: w4_def)
  have d: "state (deriveUserStateWithStep (Some (u \<lparr> registrationCompleted := True \<rparr>)) h)
           = ''completed''" for h
    using cl by (simp add: deriveUserStateWithStep_def truthy_def Let_def)
  have e: "state (deriveUserStateWithStep (users w4 (from_id c)) (userStates w4 (from_id c)))
             = ''completed''"
    by (simp only: f d)
  have g: "map_option current (userStates w4 (from_id c)) = Some ''completed''"
    by (simp add: f)
  show ?thesis
    using h1 p1(1,2) h2 p2(1,2) h3 p3(1,2) h4 o f(1) e g by blast
qed

theorem first_order_all_skipped_witness:
  "\<not> too_short (Some ''CityA'') \<and> user_valid (schemaYear ex_world) ex_user
   \<and> (\<exists>w1 s1 w2 s2 w3 s3 w4.
           handleFirstOrder ex_ctx ex_user ex_session (Some ''CityA'') ex_world = Inr (True, w1)
         \<and> userStates w1 7 = Some s1
         \<and> handleFirstOrder ex_ctx ex_user s1 (Some ''Skip'') w1 = Inr (True, w2)
         \<and> userStates w2 7 = Some s2
         \<and> handleFirstOrder ex_ctx ex_user s2 (Some ''Skip'') w2 = Inr (True, w3)
         \<and> userStates w3 7 = Some s3
         \<and> handleFirstOrder ex_ctx ex_user s3 (Some ''Skip'') w3 = Inr (True, w4)
         \<and> orders w4 =
              [\<lparr> clientId = 1, cargo_from = Some ''CityA'', cargo_to = [],
                 cargo_description = [], cargo_price = Num 0, status = ''active'' \<rparr>]
         \<and> users w4 7 = Some (ex_user \<lparr> registrationCompleted := True \<rparr>)
         \<and> map_option current (userStates w4 7) = Some ''completed'')"
proof -
  have i: "from_id ex_ctx = 7" "skip (i18n ex_ctx) = ''Skip''"
    by (simp_all add: ex_ctx_def ex_labels_def)
  have u: "users ex_world (from_id ex_ctx) = Some ex_user"
    by (simp add: ex_world_def ex_ctx_def)
  have cl: "role (profile ex_user) = Some ''client''" "truthy (firstName (profile ex_user))"
    "truthy (phoneNumber (profile ex_user))"
    by (simp_all add: ex_user_def truthy_def)
  have uv: "user_valid (schemaYear ex_world) ex_user"
    by (simp add: user_valid_def in_enum_def ex_world_def ex_user_def truthy_def)
  have s: "userStates ex_world (from_id ex_ctx) = Some ex_session"
    "or_else (orderStep (sdata ex_session)) ''from_location'' = ''from_location''"
    "d_to (sdata ex_session) = None" "d_description (sdata ex_session) = None"
    "d_price (sdata ex_session) = None"
    by (simp_all add: ex_world_def ex_ctx_def ex_session_def no_data_def or_else_def)
  have ts: "\<not> too_short (Some ''CityA'')"
    by (simp add: too_short_def ex_trims)
  have k: "trim (skip (i18n ex_ctx)) = skip (i18n ex_ctx)"
    by (simp add: i ex_trims)
  have o: "orders ex_world = []" "oid ex_user = 1" "trim ''CityA'' = ''CityA''"
    by (simp_all add: ex_world_def ex_user_def ex_trims)
  have "\<exists>w1 s1 w2 s2 w3 s3 w4.
           handleFirstOrder ex_ctx ex_user ex_session (Some ''CityA'') ex_world = Inr (True, w1)
         \<and> users w1 7 = Some ex_user \<and> userStates w1 7 = Some s1
         \<and> handleFirstOrder ex_ctx ex_user s1 (Some ''Skip'') w1 = Inr (True, w2)
         \<and> users w2 7 = Some ex_user \<and> userStates w2 7 = Some s2
         \<and> handleFirstOrder ex_ctx ex_user s2 (Some ''Skip'') w2 = Inr (True, w3)
         \<and> users w3 7 = Some ex_user \<and> userStates w3 7 = Some s3
         \<and> handleFirstOrder ex_ctx ex_user s3 (Some ''Skip'') w3 = Inr (True, w4)
         \<and> orders w1 = [] \<and> orders w2 = [] \<and> orders w3 = []
         \<and> orders w4 = [] @
              [\<lparr> clientId = 1, cargo_from = Some ''CityA'', cargo_to = [],
                 cargo_description = [], cargo_price = Num 0, status = ''active'' \<rparr>]
         \<and> users w4 7 = Some (ex_user \<lparr> registrationCompleted := True \<rparr>)
         \<and> state (deriveUserStateWithStep (users w4 7) (userStates w4 7)) = ''completed''
         \<and> map_option current (userStates w4 7) = Some ''completed''"
    using first_order_all_skipped [OF u cl uv s ts k] by (simp only: i o)
  then have "\<exists>w1 s1 w2 s2 w3 s3 w4.
           handleFirstOrder ex_ctx ex_user ex_session (Some ''CityA'') ex_world = Inr (True, w1)
         \<and> userStates w1 7 = Some s1
         \<and> handleFirstOrder ex_ctx ex_user s1 (Some ''Skip'') w1 = Inr (True, w2)
         \<and> userStates w2 7 = Some s2
         \<and> handleFirstOrder ex_ctx ex_user s2 (Some ''Skip'') w2 = Inr (True, w3)
         \<and> userStates w3 7 = Some s3
         \<and> handleFirstOrder ex_ctx ex_user s3 (Some ''Skip'') w3 = Inr (True, w4)
         \<and> orders w4 =
              [\<lparr> clientId = 1, cargo_from = Some ''CityA'', cargo_to = [],
                 cargo_description = [], cargo_price = Num 0, status = ''active'' \<rparr>]
         \<and> users w4 7 = Some (ex_user \<lparr> registrationCompleted := True \<rparr>)
         \<and> map_option current (userStates w4 7) = Some ''completed''"
    by (simp only: append_Nil) blast
  then show ?thesis using ts uv by blast
qed

section \<open>Invalid input\<close>











end
